theory Spec2Isabelle
  imports Main
begin

section \<open>JavaScript strings and values\<close>

text \<open>
  A string is a list of UTF-16 code units; a \<open>char\<close> is a code unit below 256 (Basic
  Latin and Latin-1 Supplement). On these, \<open>toLowerCase\<close> and \<open>trim\<close> are those of
  ECMAScript: the capital letters are \<open>A\<close>..\<open>Z\<close> (65..90) and U+00C0..U+00DE without
  the multiplication sign U+00D7, each 32 below its small letter; the white space and
  line terminators are tab, line feed, vertical tab, form feed, carriage return, space
  and the no-break space U+00A0.
\<close>

definition lower_char :: "char \<Rightarrow> char" where
  "lower_char c =
     (let n = (of_char c :: nat)
      in if (65 \<le> n \<and> n \<le> 90) \<or> (192 \<le> n \<and> n \<le> 222 \<and> n \<noteq> 215)
         then char_of (n + 32) else c)"

definition toLowerCase :: "string \<Rightarrow> string" where
  "toLowerCase s = map lower_char s"

definition is_whitespace :: "char \<Rightarrow> bool" where
  "is_whitespace c = ((of_char c :: nat) \<in> {9, 10, 11, 12, 13, 32, 160})"

definition trim :: "string \<Rightarrow> string" where
  "trim s = rev (dropWhile is_whitespace (rev (dropWhile is_whitespace s)))"

text \<open>
  A property read of an object yields a string or \<open>undefined\<close> (\<open>None\<close>).
  \<open>truthy\<close> is JavaScript's truthiness of such a value, \<open>js_or\<close> is \<open>a || b\<close>,
  and \<open>opt_trim\<close> is \<open>a?.trim()\<close>.
\<close>

definition truthy :: "string option \<Rightarrow> bool" where
  "truthy v = (case v of None \<Rightarrow> False | Some s \<Rightarrow> s \<noteq> [])"

definition js_or :: "string option \<Rightarrow> string option \<Rightarrow> string option" where
  "js_or a b = (if truthy a then a else b)"

definition opt_trim :: "string option \<Rightarrow> string option" where
  "opt_trim v = map_option trim v"

section \<open>Data model (types.ts)\<close>

text \<open>
  Field names are those of the interfaces, except where a name is taken or two interfaces
  share one: \<open>id\<close> is \<open>pid\<close>, \<open>club_id\<close>, \<open>cm_id\<close> or \<open>vol_id\<close>, \<open>notes\<close> is
  \<open>notes'\<close>, and the fields of \<open>Club\<close> and \<open>Volunteer\<close> carry a prefix. An optional
  field is an \<open>option\<close>.
\<close>

type_synonym UUID = string

text \<open>A \<open>Date\<close> is its time value in milliseconds.\<close>

type_synonym Date = int

datatype Gender = Male | Female | Other

datatype Region = Ashanti | GreaterAccra | Volta | Western | Eastern | Central

definition Gender_string :: "Gender \<Rightarrow> string" where
  "Gender_string g = (case g of Male \<Rightarrow> ''Male'' | Female \<Rightarrow> ''Female'' | Other \<Rightarrow> ''Other'')"

definition Region_string :: "Region \<Rightarrow> string" where
  "Region_string r =
     (case r of Ashanti \<Rightarrow> ''Ashanti'' | GreaterAccra \<Rightarrow> ''Greater Accra'' | Volta \<Rightarrow> ''Volta''
      | Western \<Rightarrow> ''Western'' | Eastern \<Rightarrow> ''Eastern'' | Central \<Rightarrow> ''Central'')"

record Participant =
  pid :: UUID
  name :: string
  gender :: Gender
  institution :: string
  region :: Region
  contact :: string
  membershipStatus :: bool
  certificateIssued :: bool
  isContestant :: "bool option"
  notes' :: string
  createdAt :: Date
  membershipId :: string
  ghanaCardNumber :: "string option"
  engagementScore :: "int option"
  lastMembershipCardGeneratedAt :: "Date option"
  photoUrl :: "string option"

record Club =
  club_id :: UUID
  club_name :: string
  club_description :: string
  club_institution :: string
  club_createdAt :: Date

record ClubMembership =
  cm_id :: "UUID option"
  participantId :: UUID
  clubId :: UUID
  joinDate :: Date

datatype VolunteerRole = Event_Staff | Mentor | Logistics | Administrative | Fundraising

datatype VolunteerStatus = Active | Inactive | Pending

record Volunteer =
  vol_id :: UUID
  vol_participantId :: UUID
  vol_role :: VolunteerRole
  vol_status :: VolunteerStatus
  vol_startDate :: Date

section \<open>CSV rows and preview rows\<close>

text \<open>
  Modelled from the spec: \<open>parseCsv\<close> (utils/csv) is not among the sources; it yields an
  ordered sequence of rows, each a mapping from column name to string value. A row is
  the list of its cells in column order, one cell per column name; \<open>cell row k\<close> is the
  property read \<open>row[k]\<close> and \<open>Object_values\<close> is \<open>Object.values(row)\<close>.

  The three import components each have a \<open>processFile\<close> and a \<open>handleImport\<close>; their
  models carry the prefixes \<open>club_\<close>, \<open>part_\<close> and \<open>vol_\<close>, and each component's
  \<open>ImportStatus\<close> is a datatype of its own.
\<close>

type_synonym Row = "(string \<times> string) list"

definition cell :: "Row \<Rightarrow> string \<Rightarrow> string option" where
  "cell row k = map_of row k"

definition Object_values :: "Row \<Rightarrow> string list" where
  "Object_values row = map snd row"

record 's PreviewRow =
  data :: Row
  status :: 's
  message :: string

text \<open>
  \<open>new Map(entries)\<close> sets the entries in order, so the last entry of a key is the one
  kept; \<open>Map_get\<close> and \<open>Map_has\<close> read it.
\<close>

definition Map_get :: "('k \<times> 'v) list \<Rightarrow> 'k \<Rightarrow> 'v option" where
  "Map_get entries k = map_of (rev entries) k"

definition Map_has :: "('k \<times> 'v) list \<Rightarrow> 'k \<Rightarrow> bool" where
  "Map_has entries k = (Map_get entries k \<noteq> None)"

section \<open>Club member import: preview (ImportMembersModal.processFile)\<close>

datatype ClubImportStatus =
  Club_New_Participant | Club_Existing_Participant | Already_a_Member | Club_Invalid_Data

definition clubMemberIds :: "ClubMembership list \<Rightarrow> Club \<Rightarrow> UUID list" where
  "clubMemberIds clubMemberships club =
     map participantId (filter (\<lambda>cm. clubId cm = club_id club) clubMemberships)"

text \<open>The callback of \<open>data.map\<close>.\<close>

definition club_validate :: "Participant list \<Rightarrow> UUID list \<Rightarrow> Row \<Rightarrow> ClubImportStatus PreviewRow" where
  "club_validate participants memberIds row =
     (if \<not> truthy (cell row ''Name'') \<or> \<not> truthy (cell row ''Contact'')
      then \<lparr>data = row, status = Club_Invalid_Data, message = ''Missing Name or Contact''\<rparr>
      else
        (case find (\<lambda>p. Some (name p) = cell row ''Name'' \<and> Some (contact p) = cell row ''Contact'')
                participants of
           Some existingParticipant \<Rightarrow>
             (if pid existingParticipant \<in> set memberIds
              then \<lparr>data = row, status = Already_a_Member, message = ''Will be skipped''\<rparr>
              else \<lparr>data = row, status = Club_Existing_Participant, message = ''Will be added to club''\<rparr>)
         | None \<Rightarrow>
             \<lparr>data = row, status = Club_New_Participant, message = ''Will be created and added''\<rparr>))"

definition club_processFile ::
  "Participant list \<Rightarrow> ClubMembership list \<Rightarrow> Club \<Rightarrow> Row list \<Rightarrow> ClubImportStatus PreviewRow list" where
  "club_processFile participants clubMemberships club rows =
     map (club_validate participants (clubMemberIds clubMemberships club)) rows"

section \<open>Participant import: preview (ImportParticipantsModal.processFile)\<close>

datatype ParticipantImportStatus =
  Part_New_Participant | Participant_Already_Exists | Part_Invalid_Data

definition part_key :: "string \<Rightarrow> string \<Rightarrow> string" where
  "part_key nm ct = toLowerCase (trim nm) @ ''_'' @ trim ct"

definition part_participantMap :: "Participant list \<Rightarrow> (string \<times> Participant) list" where
  "part_participantMap participants = map (\<lambda>p. (part_key (name p) (contact p), p)) participants"

definition part_name :: "Row \<Rightarrow> string option" where
  "part_name row = js_or (opt_trim (cell row ''NAMES'')) (opt_trim (cell row ''Name''))"

definition part_contact :: "Row \<Rightarrow> string option" where
  "part_contact row = js_or (opt_trim (cell row ''CONTACT'')) (opt_trim (cell row ''Contact''))"

text \<open>The callback of \<open>parsedRows.map\<close>; \<open>None\<close> is the \<open>null\<close> that \<open>filter(Boolean)\<close> removes.\<close>

definition part_validate ::
  "(string \<times> Participant) list \<Rightarrow> Row \<Rightarrow> ParticipantImportStatus PreviewRow option" where
  "part_validate participantMap row =
     (let nm = part_name row; ct = part_contact row in
      if \<not> truthy nm \<and> \<not> truthy ct \<and> list_all (\<lambda>val. val = []) (Object_values row) then None
      else if \<not> truthy nm \<or> \<not> truthy ct
      then Some \<lparr>data = row, status = Part_Invalid_Data, message = ''Missing NAMES or CONTACT column''\<rparr>
      else
        (let key = toLowerCase (the nm) @ ''_'' @ the ct in
         if Map_has participantMap key
         then Some \<lparr>data = row, status = Participant_Already_Exists, message = ''Will be skipped''\<rparr>
         else Some \<lparr>data = row, status = Part_New_Participant, message = ''Will be created''\<rparr>))"

text \<open>
  \<open>None\<close> is the early return on an empty file (an error toast, no preview).
\<close>

definition part_processFile ::
  "Participant list \<Rightarrow> Row list \<Rightarrow> ParticipantImportStatus PreviewRow list option" where
  "part_processFile participants parsedRows =
     (if length parsedRows = 0 then None
      else Some (List.map_filter (part_validate (part_participantMap participants)) parsedRows))"

section \<open>Volunteer import: preview (ImportVolunteersModal.processFile)\<close>

datatype VolunteerImportStatus =
  Vol_New_Participant | Vol_Existing_Participant | Already_a_Volunteer | Vol_Invalid_Data

definition VOLUNTEER_ROLES_LIST :: "string list" where
  "VOLUNTEER_ROLES_LIST = [''Event Staff'', ''Mentor'', ''Logistics'', ''Administrative'', ''Fundraising'']"

definition vol_key :: "string \<Rightarrow> string \<Rightarrow> string" where
  "vol_key nm ct = toLowerCase nm @ ''_'' @ toLowerCase ct"

definition vol_participantMap :: "Participant list \<Rightarrow> (string \<times> Participant) list" where
  "vol_participantMap participants = map (\<lambda>p. (vol_key (name p) (contact p), p)) participants"

definition volunteerParticipantIds :: "Volunteer list \<Rightarrow> UUID list" where
  "volunteerParticipantIds volunteers = map vol_participantId volunteers"

text \<open>The callback of \<open>data.map\<close>.\<close>

definition vol_validate ::
  "(string \<times> Participant) list \<Rightarrow> UUID list \<Rightarrow> Row \<Rightarrow> VolunteerImportStatus PreviewRow" where
  "vol_validate participantMap volunteerIds row =
     (let nm = opt_trim (cell row ''Name''); ct = opt_trim (cell row ''Contact'');
          rl = opt_trim (cell row ''Role'') in
      if \<not> truthy nm \<or> \<not> truthy ct \<or> \<not> truthy rl
      then \<lparr>data = row, status = Vol_Invalid_Data, message = ''Missing Name, Contact, or Role''\<rparr>
      else if the rl \<notin> set VOLUNTEER_ROLES_LIST
      then \<lparr>data = row, status = Vol_Invalid_Data, message = ''Invalid role: '' @ the rl\<rparr>
      else
        (case Map_get participantMap (vol_key (the nm) (the ct)) of
           Some existingParticipant \<Rightarrow>
             (if pid existingParticipant \<in> set volunteerIds
              then \<lparr>data = row, status = Already_a_Volunteer,
                     message = ''This person is already a volunteer.''\<rparr>
              else \<lparr>data = row, status = Vol_Existing_Participant,
                     message = ''Will be converted to a volunteer.''\<rparr>)
         | None \<Rightarrow>
             \<lparr>data = row, status = Vol_New_Participant,
              message = ''Will be created and added as a volunteer.''\<rparr>))"

text \<open>
  \<open>None\<close> is the early return on an empty file (an error toast, no preview).
\<close>

definition vol_processFile ::
  "Participant list \<Rightarrow> Volunteer list \<Rightarrow> Row list \<Rightarrow> VolunteerImportStatus PreviewRow list option" where
  "vol_processFile participants volunteers rows =
     (if length rows = 0 then None
      else Some (map (vol_validate (vol_participantMap participants)
                        (volunteerParticipantIds volunteers)) rows))"

section \<open>Persistence layer\<close>

text \<open>
  The importers receive the persistence operations as props. Each is an asynchronous
  call on the application state \<open>'w\<close>: awaiting it either yields a value or throws.
  \<open>NewParticipant\<close> is the object literal the importers pass to \<open>addParticipant\<close>
  (a property read of a row may be \<open>undefined\<close>), \<open>NewVolunteer\<close> the one passed to
  \<open>addVolunteer\<close>.
\<close>

datatype jsval = JUndefined | JNull | JBoolean bool | JNumber int | JString string | JDate Date

datatype 'a awaited = Resolved 'a | Rejected

record NewParticipant =
  np_name :: "string option"
  np_contact :: "string option"
  np_institution :: string
  np_gender :: Gender
  np_region :: Region
  np_ghanaCardNumber :: string
  np_isContestant :: "bool option"
  np_membershipStatus :: bool
  np_certificateIssued :: bool
  np_notes :: string

record NewVolunteer =
  nv_participantId :: UUID
  nv_role :: "string option"
  nv_status :: VolunteerStatus
  nv_startDate :: Date

record 'w Persistence =
  addParticipant :: "NewParticipant \<Rightarrow> UUID option \<Rightarrow> 'w \<Rightarrow> Participant option awaited \<times> 'w"
  addClubMembership :: "UUID \<Rightarrow> UUID \<Rightarrow> 'w \<Rightarrow> bool awaited \<times> 'w"
  addVolunteer :: "NewVolunteer \<Rightarrow> 'w \<Rightarrow> jsval awaited \<times> 'w"
  addMultipleParticipants :: "NewParticipant list \<Rightarrow> 'w \<Rightarrow> nat awaited \<times> 'w"

text \<open>The persistence calls an import run makes, in order, each with what awaiting it gave.\<close>

datatype Call =
  Call_addParticipant NewParticipant "UUID option" "Participant option awaited"
| Call_addClubMembership UUID UUID "bool awaited"
| Call_addVolunteer NewVolunteer "jsval awaited"
| Call_addMultipleParticipants "NewParticipant list" "nat awaited"

record 'w Run =
  world :: 'w
  calls :: "Call list"

definition await_addParticipant ::
  "'w Persistence \<Rightarrow> NewParticipant \<Rightarrow> UUID option \<Rightarrow> ('w, 'z) Run_scheme
     \<Rightarrow> Participant option awaited \<times> ('w, 'z) Run_scheme" where
  "await_addParticipant P f cid s =
     (let (r, w') = addParticipant P f cid (world s)
      in (r, s\<lparr>world := w', calls := calls s @ [Call_addParticipant f cid r]\<rparr>))"

definition await_addClubMembership ::
  "'w Persistence \<Rightarrow> UUID \<Rightarrow> UUID \<Rightarrow> ('w, 'z) Run_scheme \<Rightarrow> bool awaited \<times> ('w, 'z) Run_scheme" where
  "await_addClubMembership P p c s =
     (let (r, w') = addClubMembership P p c (world s)
      in (r, s\<lparr>world := w', calls := calls s @ [Call_addClubMembership p c r]\<rparr>))"

definition await_addVolunteer ::
  "'w Persistence \<Rightarrow> NewVolunteer \<Rightarrow> ('w, 'z) Run_scheme \<Rightarrow> jsval awaited \<times> ('w, 'z) Run_scheme" where
  "await_addVolunteer P v s =
     (let (r, w') = addVolunteer P v (world s)
      in (r, s\<lparr>world := w', calls := calls s @ [Call_addVolunteer v r]\<rparr>))"

definition await_addMultipleParticipants ::
  "'w Persistence \<Rightarrow> NewParticipant list \<Rightarrow> ('w, 'z) Run_scheme \<Rightarrow> nat awaited \<times> ('w, 'z) Run_scheme" where
  "await_addMultipleParticipants P fs s =
     (let (r, w') = addMultipleParticipants P fs (world s)
      in (r, s\<lparr>world := w', calls := calls s @ [Call_addMultipleParticipants fs r]\<rparr>))"

text \<open>
  The participants a run has created: those its \<open>addParticipant\<close> calls yielded, in order.
\<close>

fun created_participants :: "Call list \<Rightarrow> Participant list" where
  "created_participants [] = []"
| "created_participants (Call_addParticipant f c (Resolved (Some p)) # cs) = p # created_participants cs"
| "created_participants (_ # cs) = created_participants cs"

text \<open>What a statement can throw inside \<open>handleImport\<close>.\<close>

datatype js_error = Rejection | TypeError | Invalid_start_date

text \<open>
  \<open>Object.values(Gender).includes(v) ? v : Gender.Other\<close> and its analogue for regions.
\<close>

definition gender_or_Other :: "string option \<Rightarrow> Gender" where
  "gender_or_Other v =
     (case find (\<lambda>g. Some (Gender_string g) = v) [Male, Female, Other] of
        Some g \<Rightarrow> g | None \<Rightarrow> Other)"

definition region_or_GreaterAccra :: "string option \<Rightarrow> Region" where
  "region_or_GreaterAccra v =
     (case find (\<lambda>r. Some (Region_string r) = v)
             [Ashanti, GreaterAccra, Volta, Western, Eastern, Central] of
        Some r \<Rightarrow> r | None \<Rightarrow> GreaterAccra)"

text \<open>\<open>v || d\<close> for a default string \<open>d\<close>.\<close>

definition or_default :: "string option \<Rightarrow> string \<Rightarrow> string" where
  "or_default v d = (if truthy v then the v else d)"

section \<open>Club member import: execution (ImportMembersModal.handleImport)\<close>

record ClubStats =
  new :: nat
  existing :: nat
  skipped :: nat

record 'w ClubRun = "'w Run" +
  stats :: ClubStats
  tempParticipants :: "Participant list"

definition club_fields :: "Club \<Rightarrow> Row \<Rightarrow> NewParticipant" where
  "club_fields club row =
     (let contestantValue = map_option (\<lambda>s. toLowerCase (trim s)) (cell row ''Contestant'');
          isContestant = (contestantValue = Some ''yes'')
      in \<lparr>np_name = cell row ''Name'',
          np_contact = cell row ''Contact'',
          np_institution = club_institution club,
          np_gender = gender_or_Other (cell row ''Gender''),
          np_region = region_or_GreaterAccra (cell row ''Region''),
          np_ghanaCardNumber = or_default (cell row ''Ghana Card'') [],
          np_isContestant = Some isContestant,
          np_membershipStatus = True,
          np_certificateIssued = False,
          np_notes = ''Imported via club CSV upload.''\<rparr>)"

definition club_skip :: "'w ClubRun \<Rightarrow> 'w ClubRun" where
  "club_skip s = s\<lparr>stats := (stats s)\<lparr>skipped := skipped (stats s) + 1\<rparr>\<rparr>"

text \<open>
  The body of the \<open>for\<close> loop. There is no \<open>try\<close> in this loop: an awaited call that
  throws ends \<open>handleImport\<close> (\<open>Inl\<close>), and neither the toast nor \<open>handleClose\<close> runs.
\<close>

definition club_row ::
  "'w Persistence \<Rightarrow> Club \<Rightarrow> ClubImportStatus PreviewRow \<Rightarrow> 'w ClubRun \<Rightarrow> js_error + 'w ClubRun" where
  "club_row P club row s =
     (case status row of
        Club_Invalid_Data \<Rightarrow> Inr (club_skip s)
      | Already_a_Member \<Rightarrow> Inr (club_skip s)
      | Club_New_Participant \<Rightarrow>
          (case await_addParticipant P (club_fields club (data row)) (Some (club_id club)) s of
             (Rejected, s') \<Rightarrow> Inl Rejection
           | (Resolved (Some newParticipant), s') \<Rightarrow>
               Inr (s'\<lparr>tempParticipants := tempParticipants s' @ [newParticipant],
                       stats := (stats s')\<lparr>new := new (stats s') + 1\<rparr>\<rparr>)
           | (Resolved None, s') \<Rightarrow> Inr (club_skip s'))
      | Club_Existing_Participant \<Rightarrow>
          (case find (\<lambda>p. Some (name p) = cell (data row) ''Name''
                          \<and> Some (contact p) = cell (data row) ''Contact'') (tempParticipants s) of
             Some participant \<Rightarrow>
               (case await_addClubMembership P (pid participant) (club_id club) s of
                  (Rejected, s') \<Rightarrow> Inl Rejection
                | (Resolved success, s') \<Rightarrow>
                    (if success
                     then Inr (s'\<lparr>stats := (stats s')\<lparr>existing := existing (stats s') + 1\<rparr>\<rparr>)
                     else Inr (club_skip s')))
           | None \<Rightarrow> Inr (club_skip s)))"

fun club_loop ::
  "'w Persistence \<Rightarrow> Club \<Rightarrow> ClubImportStatus PreviewRow list \<Rightarrow> 'w ClubRun \<Rightarrow> js_error + 'w ClubRun" where
  "club_loop P club [] s = Inr s"
| "club_loop P club (row # rows) s =
     (case club_row P club row s of Inl e \<Rightarrow> Inl e | Inr s' \<Rightarrow> club_loop P club rows s')"

definition club_start :: "Participant list \<Rightarrow> 'w \<Rightarrow> 'w ClubRun" where
  "club_start participants w =
     \<lparr>world = w, calls = [], stats = \<lparr>new = 0, existing = 0, skipped = 0\<rparr>,
      tempParticipants = participants\<rparr>"

text \<open>
  \<open>Inr s\<close>: the loop ended and the toast reports \<open>stats s\<close>. \<open>Inl e\<close>: \<open>e\<close> was thrown
  out of \<open>handleImport\<close>.
\<close>

definition club_handleImport ::
  "'w Persistence \<Rightarrow> Club \<Rightarrow> Participant list \<Rightarrow> ClubImportStatus PreviewRow list \<Rightarrow> 'w
     \<Rightarrow> js_error + 'w ClubRun" where
  "club_handleImport P club participants previewData w =
     club_loop P club previewData (club_start participants w)"

section \<open>Volunteer import: execution (ImportVolunteersModal.handleImport)\<close>

record VolunteerStats = ClubStats +
  failed :: nat

record 'w VolRun = "'w Run" +
  vstats :: VolunteerStats

text \<open>
  \<open>new Date(s)\<close> is \<open>Date_parse s\<close>, \<open>None\<close> when its time value is \<open>NaN\<close>;
  \<open>new Date()\<close> is \<open>Date_now\<close>.
\<close>

record Clock =
  Date_parse :: "string \<Rightarrow> Date option"
  Date_now :: Date

definition vol_fields :: "Row \<Rightarrow> NewParticipant" where
  "vol_fields row =
     \<lparr>np_name = cell row ''Name'',
      np_contact = cell row ''Contact'',
      np_institution = or_default (cell row ''Institution'') ''N/A'',
      np_gender = gender_or_Other (cell row ''Gender''),
      np_region = region_or_GreaterAccra (cell row ''Region''),
      np_ghanaCardNumber = or_default (cell row ''Ghana Card'') [],
      np_isContestant = None,
      np_membershipStatus = True,
      np_certificateIssued = False,
      np_notes = ''Imported via volunteer CSV upload.''\<rparr>"

definition vol_skip :: "'w VolRun \<Rightarrow> 'w VolRun" where
  "vol_skip s = s\<lparr>vstats := (vstats s)\<lparr>skipped := skipped (vstats s) + 1\<rparr>\<rparr>"

definition vol_fail :: "'w VolRun \<Rightarrow> 'w VolRun" where
  "vol_fail s = s\<lparr>vstats := (vstats s)\<lparr>failed := failed (vstats s) + 1\<rparr>\<rparr>"

definition vol_volunteer :: "UUID \<Rightarrow> Row \<Rightarrow> Date \<Rightarrow> NewVolunteer" where
  "vol_volunteer p row startDate =
     \<lparr>nv_participantId = p, nv_role = cell row ''Role'', nv_status = Active,
      nv_startDate = startDate\<rparr>"

text \<open>
  The first statement of the \<open>try\<close> block:
  \<open>row.data.StartDate ? new Date(row.data.StartDate) : new Date()\<close>, with \<open>None\<close> when
  \<open>isNaN(startDate.getTime())\<close>, where the block throws.
\<close>

definition vol_try_startDate :: "Clock \<Rightarrow> Row \<Rightarrow> Date option" where
  "vol_try_startDate clock row =
     (if truthy (cell row ''StartDate'') then Date_parse clock (the (cell row ''StartDate''))
      else Some (Date_now clock))"

text \<open>
  The \<open>try\<close> block of the loop body: \<open>Inl (e, s)\<close> when \<open>e\<close> is thrown in state \<open>s\<close>.
\<close>

definition vol_try ::
  "'w Persistence \<Rightarrow> Clock \<Rightarrow> (string \<times> Participant) list \<Rightarrow> VolunteerImportStatus PreviewRow
     \<Rightarrow> 'w VolRun \<Rightarrow> (js_error \<times> 'w VolRun) + 'w VolRun" where
  "vol_try P clock participantMap row s =
     (case vol_try_startDate clock (data row) of
        None \<Rightarrow> Inl (Invalid_start_date, s)
      | Some startDate \<Rightarrow>
          (case status row of
             Vol_New_Participant \<Rightarrow>
               (case await_addParticipant P (vol_fields (data row)) None s of
                  (Rejected, s1) \<Rightarrow> Inl (Rejection, s1)
                | (Resolved None, s1) \<Rightarrow> Inr (vol_fail s1)
                | (Resolved (Some newParticipant), s1) \<Rightarrow>
                    (case await_addVolunteer P
                            (vol_volunteer (pid newParticipant) (data row) startDate) s1 of
                       (Rejected, s2) \<Rightarrow> Inl (Rejection, s2)
                     | (Resolved _, s2) \<Rightarrow>
                         Inr (s2\<lparr>vstats := (vstats s2)\<lparr>new := new (vstats s2) + 1\<rparr>\<rparr>)))
           | Vol_Existing_Participant \<Rightarrow>
               (case (cell (data row) ''Name'', cell (data row) ''Contact'') of
                  (Some nm, Some ct) \<Rightarrow>
                    (case Map_get participantMap (vol_key nm ct) of
                       Some participant \<Rightarrow>
                         (case await_addVolunteer P
                                 (vol_volunteer (pid participant) (data row) startDate) s of
                            (Rejected, s1) \<Rightarrow> Inl (Rejection, s1)
                          | (Resolved _, s1) \<Rightarrow>
                              Inr (s1\<lparr>vstats := (vstats s1)\<lparr>existing := existing (vstats s1) + 1\<rparr>\<rparr>))
                     | None \<Rightarrow> Inr (vol_fail s))
                | _ \<Rightarrow> Inl (TypeError, s))
           | _ \<Rightarrow> Inr s))"

text \<open>The body of the \<open>for\<close> loop: the \<open>catch\<close> counts the row as failed.\<close>

definition vol_row ::
  "'w Persistence \<Rightarrow> Clock \<Rightarrow> (string \<times> Participant) list \<Rightarrow> VolunteerImportStatus PreviewRow
     \<Rightarrow> 'w VolRun \<Rightarrow> 'w VolRun" where
  "vol_row P clock participantMap row s =
     (if status row = Vol_Invalid_Data \<or> status row = Already_a_Volunteer then vol_skip s
      else (case vol_try P clock participantMap row s of
              Inl (e, s') \<Rightarrow> vol_fail s'
            | Inr s' \<Rightarrow> s'))"

fun vol_loop ::
  "'w Persistence \<Rightarrow> Clock \<Rightarrow> (string \<times> Participant) list \<Rightarrow> VolunteerImportStatus PreviewRow list
     \<Rightarrow> 'w VolRun \<Rightarrow> 'w VolRun" where
  "vol_loop P clock participantMap [] s = s"
| "vol_loop P clock participantMap (row # rows) s =
     vol_loop P clock participantMap rows (vol_row P clock participantMap row s)"

definition vol_start :: "'w \<Rightarrow> 'w VolRun" where
  "vol_start w =
     \<lparr>world = w, calls = [], vstats = \<lparr>new = 0, existing = 0, skipped = 0, failed = 0\<rparr>\<rparr>"

text \<open>The toast reports \<open>vstats\<close> of the state returned.\<close>

definition vol_handleImport ::
  "'w Persistence \<Rightarrow> Clock \<Rightarrow> Participant list \<Rightarrow> VolunteerImportStatus PreviewRow list \<Rightarrow> 'w
     \<Rightarrow> 'w VolRun" where
  "vol_handleImport P clock participants previewData w =
     vol_loop P clock (vol_participantMap participants) previewData (vol_start w)"

section \<open>Participant import: execution (ImportParticipantsModal.handleImport)\<close>

definition part_fields :: "Row \<Rightarrow> NewParticipant" where
  "part_fields row =
     (let membersValue =
            js_or (map_option (\<lambda>s. toLowerCase (trim s)) (cell row ''MEMBERS''))
                  (map_option (\<lambda>s. toLowerCase (trim s)) (cell row ''Members''));
          membershipStatus = (membersValue = Some ''yes'')
      in \<lparr>np_name = js_or (cell row ''NAMES'') (cell row ''Name''),
          np_contact = js_or (cell row ''CONTACT'') (cell row ''Contact''),
          np_institution =
            or_default (js_or (cell row ''INSTITUTION'') (cell row ''Institution'')) ''N/A'',
          np_gender = gender_or_Other (js_or (cell row ''GENDER'') (cell row ''Gender'')),
          np_region = region_or_GreaterAccra (js_or (cell row ''REGION'') (cell row ''Region'')),
          np_ghanaCardNumber = or_default (cell row ''GHANA CARD'') [],
          np_isContestant = None,
          np_membershipStatus = membershipStatus,
          np_certificateIssued = False,
          np_notes = or_default (js_or (cell row ''NOTES'') (cell row ''Notes'')) ''Imported via CSV.''\<rparr>)"

definition participantsToCreate :: "ParticipantImportStatus PreviewRow list \<Rightarrow> NewParticipant list" where
  "participantsToCreate previewData =
     map (\<lambda>row. part_fields (data row)) (filter (\<lambda>row. status row = Part_New_Participant) previewData)"

datatype PartToast = No_new_participants | Import_successful nat | Import_error

definition part_handleImport ::
  "'w Persistence \<Rightarrow> ParticipantImportStatus PreviewRow list \<Rightarrow> 'w Run \<Rightarrow> PartToast \<times> 'w Run" where
  "part_handleImport P previewData s =
     (if length (participantsToCreate previewData) = 0 then (No_new_participants, s)
      else (case await_addMultipleParticipants P (participantsToCreate previewData) s of
              (Resolved created, s') \<Rightarrow> (Import_successful created, s')
            | (Rejected, s') \<Rightarrow> (Import_error, s')))"

text \<open>
  Modelled from the spec: the persistence layer (\<open>usePIMSData\<close>) is not among the
  sources. A write absorbed into the snapshot is a participant that carries the name,
  contact and institution it was created with, under an id, a creation date and a
  membership id of the layer's choosing.
\<close>

definition absorbed :: "UUID \<Rightarrow> Date \<Rightarrow> string \<Rightarrow> NewParticipant \<Rightarrow> Participant" where
  "absorbed i d m f =
     \<lparr>pid = i, name = or_default (np_name f) [], gender = np_gender f,
      institution = np_institution f, region = np_region f,
      contact = or_default (np_contact f) [],
      membershipStatus = np_membershipStatus f, certificateIssued = np_certificateIssued f,
      isContestant = np_isContestant f, notes' = np_notes f, createdAt = d, membershipId = m,
      ghanaCardNumber = Some (np_ghanaCardNumber f), engagementScore = None,
      lastMembershipCardGeneratedAt = None, photoUrl = None\<rparr>"

section \<open>Participant export (ExportParticipantsModal.handleExport)\<close>

datatype ColumnKey =
  Col_membershipId | Col_name | Col_contact | Col_institution | Col_membershipStatus
| Col_engagementScore | Col_isContestant | Col_ghanaCardNumber | Col_gender | Col_region
| Col_createdAt | Col_certificateIssued | Col_notes | Col_lastMembershipCardGeneratedAt

text \<open>\<open>ALL_COLUMNS\<close> in key order: key, label, default.\<close>

definition ALL_COLUMNS :: "(ColumnKey \<times> string \<times> bool) list" where
  "ALL_COLUMNS =
     [(Col_membershipId, ''Membership ID'', True),
      (Col_name, ''Name'', True),
      (Col_contact, ''Contact'', True),
      (Col_institution, ''Institution'', True),
      (Col_membershipStatus, ''Membership Status'', True),
      (Col_engagementScore, ''Engagement Score'', True),
      (Col_isContestant, ''Is Contestant'', False),
      (Col_ghanaCardNumber, ''Ghana Card'', False),
      (Col_gender, ''Gender'', False),
      (Col_region, ''Region'', False),
      (Col_createdAt, ''Date Joined'', False),
      (Col_certificateIssued, ''Certificate Issued'', False),
      (Col_notes, ''Notes'', False),
      (Col_lastMembershipCardGeneratedAt, ''Last Card Generated'', False)]"

definition label :: "ColumnKey \<Rightarrow> string" where
  "label key = (case map_of ALL_COLUMNS key of Some (l, d) \<Rightarrow> l | None \<Rightarrow> [])"

definition opt_val :: "('a \<Rightarrow> jsval) \<Rightarrow> 'a option \<Rightarrow> jsval" where
  "opt_val f v = (case v of None \<Rightarrow> JUndefined | Some x \<Rightarrow> f x)"

text \<open>The property read \<open>participant[key]\<close>.\<close>

definition participant_get :: "Participant \<Rightarrow> ColumnKey \<Rightarrow> jsval" where
  "participant_get p key =
     (case key of
        Col_membershipId \<Rightarrow> JString (membershipId p)
      | Col_name \<Rightarrow> JString (name p)
      | Col_contact \<Rightarrow> JString (contact p)
      | Col_institution \<Rightarrow> JString (institution p)
      | Col_membershipStatus \<Rightarrow> JBoolean (membershipStatus p)
      | Col_engagementScore \<Rightarrow> opt_val JNumber (engagementScore p)
      | Col_isContestant \<Rightarrow> opt_val JBoolean (isContestant p)
      | Col_ghanaCardNumber \<Rightarrow> opt_val JString (ghanaCardNumber p)
      | Col_gender \<Rightarrow> JString (Gender_string (gender p))
      | Col_region \<Rightarrow> JString (Region_string (region p))
      | Col_createdAt \<Rightarrow> JDate (createdAt p)
      | Col_certificateIssued \<Rightarrow> JBoolean (certificateIssued p)
      | Col_notes \<Rightarrow> JString (notes' p)
      | Col_lastMembershipCardGeneratedAt \<Rightarrow> opt_val JDate (lastMembershipCardGeneratedAt p))"

text \<open>
  The formatting inside \<open>forEach\<close>; \<open>toLocaleDateString\<close> depends on the host's locale
  and is a parameter.
\<close>

definition format_value :: "(Date \<Rightarrow> string) \<Rightarrow> jsval \<Rightarrow> jsval" where
  "format_value toLocaleDateString v =
     (case v of
        JDate d \<Rightarrow> JString (toLocaleDateString d)
      | JBoolean b \<Rightarrow> JString (if b then ''Yes'' else ''No'')
      | JUndefined \<Rightarrow> JString []
      | JNull \<Rightarrow> JString []
      | _ \<Rightarrow> v)"

datatype ExportOutcome = Export_refused string | Exported "(string \<times> jsval) list list"

definition handleExport ::
  "(Date \<Rightarrow> string) \<Rightarrow> Participant list \<Rightarrow> ColumnKey set \<Rightarrow> ExportOutcome" where
  "handleExport toLocaleDateString participantsToExport selectedColumns =
     (if length participantsToExport = 0
      then Export_refused ''There are no participants to export with the current filters.''
      else if selectedColumns = {}
      then Export_refused ''Please select at least one column to export.''
      else
        (let orderedColumns = filter (\<lambda>key. key \<in> selectedColumns) (map fst ALL_COLUMNS);
             dataToExport =
               map (\<lambda>participant.
                      map (\<lambda>key. (label key,
                                   format_value toLocaleDateString (participant_get participant key)))
                          orderedColumns)
                   participantsToExport
         in Exported dataToExport))"

section \<open>Example data\<close>

definition example_participant :: "UUID \<Rightarrow> string \<Rightarrow> string \<Rightarrow> string \<Rightarrow> Participant" where
  "example_participant i n c inst =
     \<lparr>pid = i, name = n, gender = Other, institution = inst, region = GreaterAccra, contact = c,
      membershipStatus = True, certificateIssued = False, isContestant = None, notes' = [],
      createdAt = 0, membershipId = ''YIN-'' @ i, ghanaCardNumber = None, engagementScore = None,
      lastMembershipCardGeneratedAt = None, photoUrl = None\<rparr>"

definition example_club :: "UUID \<Rightarrow> string \<Rightarrow> Club" where
  "example_club i inst =
     \<lparr>club_id = i, club_name = ''Debate'', club_description = [], club_institution = inst,
      club_createdAt = 0\<rparr>"

text \<open>
  Three persistence layers over a counter of the participants created: one whose calls
  all succeed, one whose calls all return a falsy value, and one whose calls all throw.
\<close>

definition succeeding :: "nat Persistence" where
  "succeeding =
     \<lparr>addParticipant = (\<lambda>f c w. (Resolved (Some (absorbed (replicate (Suc w) CHR ''p'') 0 [] f)), Suc w)),
      addClubMembership = (\<lambda>p c w. (Resolved True, w)),
      addVolunteer = (\<lambda>v w. (Resolved JUndefined, w)),
      addMultipleParticipants = (\<lambda>fs w. (Resolved (length fs), w + length fs))\<rparr>"

definition refusing :: "nat Persistence" where
  "refusing =
     \<lparr>addParticipant = (\<lambda>f c w. (Resolved None, w)),
      addClubMembership = (\<lambda>p c w. (Resolved False, w)),
      addVolunteer = (\<lambda>v w. (Resolved JNull, w)),
      addMultipleParticipants = (\<lambda>fs w. (Resolved 0, w))\<rparr>"

definition throwing :: "nat Persistence" where
  "throwing =
     \<lparr>addParticipant = (\<lambda>f c w. (Rejected, w)),
      addClubMembership = (\<lambda>p c w. (Rejected, w)),
      addVolunteer = (\<lambda>v w. (Rejected, w)),
      addMultipleParticipants = (\<lambda>fs w. (Rejected, w))\<rparr>"

definition example_clock :: Clock where
  "example_clock = \<lparr>Date_parse = (\<lambda>s. if s = ''2024-08-01'' then Some 1722470400000 else None),
                    Date_now = 1730000000000\<rparr>"

definition example_row :: Row where
  "example_row = [(''Name'', ''Ama''), (''Contact'', ''024''), (''Role'', ''Mentor'')]"

definition preview :: "'s \<Rightarrow> Row \<Rightarrow> 's PreviewRow" where
  "preview st r = \<lparr>data = r, status = st, message = []\<rparr>"

section \<open>Export: cell formatting\<close>

lemma label_eval: "map label (map fst ALL_COLUMNS) = map (\<lambda>(k, l, d). l) ALL_COLUMNS"
  by (simp add: label_def ALL_COLUMNS_def)

lemma labels_distinct: "distinct (map label (map fst ALL_COLUMNS))"
  unfolding label_eval by (simp add: ALL_COLUMNS_def)

lemma all_columns_complete: "k \<in> set (map fst ALL_COLUMNS)"
  by (cases k; simp add: ALL_COLUMNS_def)

lemma label_inj: "label a = label b \<Longrightarrow> a = b"
proof -
  assume h: "label a = label b"
  have "inj_on label (set (map fst ALL_COLUMNS))"
    using labels_distinct by (simp only: distinct_map)
  then show ?thesis
    using h all_columns_complete[of a] all_columns_complete[of b] by (auto dest: inj_onD)
qed

lemma map_of_labelled:
  "k \<in> set ks \<Longrightarrow> map_of (map (\<lambda>key. (label key, g key)) ks) (label k) = Some (g k)"
  by (induction ks) (auto dest: label_inj)

lemma example_export:
  "handleExport (\<lambda>d. ''1/1/1970'') [example_participant ''p1'' ''Ama'' ''024'' ''UG'']
     {Col_name, Col_membershipStatus, Col_createdAt, Col_engagementScore}
   = Exported [[(''Name'', JString ''Ama''), (''Membership Status'', JString ''Yes''),
                (''Engagement Score'', JString []), (''Date Joined'', JString ''1/1/1970'')]]"
  by (simp add: handleExport_def ALL_COLUMNS_def label_def format_value_def participant_get_def
      example_participant_def opt_val_def)

text \<open>
  Claim C9. When the export runs, it yields one row per participant, and for every
  participant and every selected column the cell under the column's label is the
  participant's value formatted so: a Date becomes its locale date string, a boolean
  becomes \<open>Yes\<close> or \<open>No\<close>, \<open>undefined\<close> and \<open>null\<close> become the empty string, and a
  number or a string passes through unchanged.
\<close>

theorem C9_export_formatting:
  assumes "handleExport toLocaleDateString ps sel = Exported rows"
    and "i < length ps" and "k \<in> sel"
  shows "length rows = length ps \<and>
         map_of (rows ! i) (label k) =
           Some (case participant_get (ps ! i) k of
                   JDate d \<Rightarrow> JString (toLocaleDateString d)
                 | JBoolean b \<Rightarrow> JString (if b then ''Yes'' else ''No'')
                 | JUndefined \<Rightarrow> JString []
                 | JNull \<Rightarrow> JString []
                 | JNumber n \<Rightarrow> JNumber n
                 | JString s \<Rightarrow> JString s) \<and>
         format_value toLocaleDateString JNull = JString []"
proof -
  let ?cols = "filter (\<lambda>key. key \<in> sel) (map fst ALL_COLUMNS)"
  let ?g = "\<lambda>p key. format_value toLocaleDateString (participant_get p key)"
  from assms(1) have rows: "rows = map (\<lambda>p. map (\<lambda>key. (label key, ?g p key)) ?cols) ps"
    by (simp add: handleExport_def Let_def split: if_splits)
  have k: "k \<in> set ?cols"
    using assms(3) all_columns_complete[of k] by simp
  have "map_of (rows ! i) (label k) = Some (?g (ps ! i) k)"
    using assms(2) k by (simp add: rows map_of_labelled[where g = "?g (ps ! i)"])
  then show ?thesis
    by (simp add: rows format_value_def split: jsval.splits)
qed

theorem C9_export_formatting_witness:
  "handleExport (\<lambda>d. ''1/1/1970'') [example_participant ''p1'' ''Ama'' ''024'' ''UG'']
     {Col_name, Col_membershipStatus, Col_createdAt, Col_engagementScore}
   = Exported [[(''Name'', JString ''Ama''), (''Membership Status'', JString ''Yes''),
                (''Engagement Score'', JString []), (''Date Joined'', JString ''1/1/1970'')]]
   \<and> map_of [(''Name'', JString ''Ama''), (''Membership Status'', JString ''Yes''),
              (''Engagement Score'', JString []), (''Date Joined'', JString ''1/1/1970'')]
        (label Col_membershipStatus) = Some (JString ''Yes'')"
proof -
  have a: "(0::nat) < length [example_participant ''p1'' ''Ama'' ''024'' ''UG'']"
    by simp
  have b: "Col_membershipStatus \<in> {Col_name, Col_membershipStatus, Col_createdAt, Col_engagementScore}"
    by simp
  have c: "participant_get (example_participant ''p1'' ''Ama'' ''024'' ''UG'') Col_membershipStatus
           = JBoolean True"
    by (simp add: participant_get_def example_participant_def)
  from C9_export_formatting[OF example_export a b]
  have "map_of [(''Name'', JString ''Ama''), (''Membership Status'', JString ''Yes''),
              (''Engagement Score'', JString []), (''Date Joined'', JString ''1/1/1970'')]
        (label Col_membershipStatus) = Some (JString ''Yes'')"
    by (simp add: c)
  with example_export show ?thesis ..
qed
section \<open>Import execution: every row is counted\<close>







section \<open>Import execution: rows with status New\<close>


text \<open>
  Claim C5 as stated fails in the club-member import: when the creation call returns
  \<open>null\<close> for the New row of a previewed file, the row is counted under skipped (the
  summary of that importer has no failed counter).
\<close>

theorem C5_club_failed_creation_is_skipped:
  "map status (club_processFile [] [] (example_club ''c1'' ''UG'') [example_row])
     = [Club_New_Participant]
   \<and> map_sum id stats
       (club_handleImport refusing (example_club ''c1'' ''UG'') []
          (club_processFile [] [] (example_club ''c1'' ''UG'') [example_row]) 0)
     = Inr \<lparr>new = 0, existing = 0, skipped = 1\<rparr>"
  by (simp add: club_processFile_def club_validate_def clubMemberIds_def example_row_def
      cell_def truthy_def club_handleImport_def club_start_def club_row_def refusing_def
      await_addParticipant_def club_skip_def)

text \<open>
  Claim C5, amended. For a row with status New in the volunteer import: when the start
  date is invalid, no call is made and failed is incremented; when the creation call
  throws or returns \<open>null\<close>, it is the row's only call and failed is incremented; when
  it yields a participant, \<open>addVolunteer\<close> is called for that participant with the
  start date, and failed is incremented when that call throws, new when it returns. No
  other counter changes. In the club-member import, when the creation call returns, it
  is the row's only call; new is incremented (and the participant appended to the shadow
  copy) when it yielded a participant, and skipped is incremented when it returned
  \<open>null\<close>.
\<close>

theorem C5_new_row_outcomes:
  "(status vrow = Vol_New_Participant \<and> vol_try_startDate clock (data vrow) = None \<longrightarrow>
      vol_row Q clock pm vrow vs = vol_fail vs)
   \<and> (status vrow = Vol_New_Participant \<and> vol_try_startDate clock (data vrow) = Some d
        \<and> addParticipant Q (vol_fields (data vrow)) None (world vs) = (ra, wa)
        \<and> (ra = Rejected \<or> ra = Resolved None) \<longrightarrow>
      vol_row Q clock pm vrow vs
        = vol_fail (vs\<lparr>world := wa,
                      calls := calls vs @ [Call_addParticipant (vol_fields (data vrow)) None ra]\<rparr>))
   \<and> (status vrow = Vol_New_Participant \<and> vol_try_startDate clock (data vrow) = Some d
        \<and> addParticipant Q (vol_fields (data vrow)) None (world vs) = (Resolved (Some np), wa)
        \<and> addVolunteer Q (vol_volunteer (pid np) (data vrow) d) wa = (Rejected, wb) \<longrightarrow>
      vol_row Q clock pm vrow vs
        = vol_fail (vs\<lparr>world := wb,
                      calls := calls vs
                        @ [Call_addParticipant (vol_fields (data vrow)) None (Resolved (Some np)),
                           Call_addVolunteer (vol_volunteer (pid np) (data vrow) d) Rejected]\<rparr>))
   \<and> (status vrow = Vol_New_Participant \<and> vol_try_startDate clock (data vrow) = Some d
        \<and> addParticipant Q (vol_fields (data vrow)) None (world vs) = (Resolved (Some np), wa)
        \<and> addVolunteer Q (vol_volunteer (pid np) (data vrow) d) wa = (Resolved rv, wb) \<longrightarrow>
      vol_row Q clock pm vrow vs
        = vs\<lparr>world := wb,
             calls := calls vs
               @ [Call_addParticipant (vol_fields (data vrow)) None (Resolved (Some np)),
                  Call_addVolunteer (vol_volunteer (pid np) (data vrow) d) (Resolved rv)],
             vstats := (vstats vs)\<lparr>new := new (vstats vs) + 1\<rparr>\<rparr>)
   \<and> (status crow = Club_New_Participant
        \<and> fst (addParticipant P (club_fields club (data crow)) (Some (club_id club)) (world cs))
            = Resolved r \<longrightarrow>
        (\<exists>s'. club_row P club crow cs = Inr s'
           \<and> calls s' = calls cs @ [Call_addParticipant (club_fields club (data crow))
                                      (Some (club_id club)) (Resolved r)]
           \<and> (case r of
                 Some np \<Rightarrow> stats s' = (stats cs)\<lparr>new := new (stats cs) + 1\<rparr>
                            \<and> tempParticipants s' = tempParticipants cs @ [np]
               | None \<Rightarrow> stats s' = (stats cs)\<lparr>skipped := skipped (stats cs) + 1\<rparr>
                         \<and> tempParticipants s' = tempParticipants cs)))"
proof (intro conjI impI)
  assume "status vrow = Vol_New_Participant \<and> vol_try_startDate clock (data vrow) = None"
  then show "vol_row Q clock pm vrow vs = vol_fail vs"
    by (simp add: vol_row_def vol_try_def)
next
  assume "status vrow = Vol_New_Participant \<and> vol_try_startDate clock (data vrow) = Some d
        \<and> addParticipant Q (vol_fields (data vrow)) None (world vs) = (ra, wa)
        \<and> (ra = Rejected \<or> ra = Resolved None)"
  then show "vol_row Q clock pm vrow vs
        = vol_fail (vs\<lparr>world := wa,
                      calls := calls vs @ [Call_addParticipant (vol_fields (data vrow)) None ra]\<rparr>)"
    by (auto simp: vol_row_def vol_try_def await_addParticipant_def)
next
  assume "status vrow = Vol_New_Participant \<and> vol_try_startDate clock (data vrow) = Some d
        \<and> addParticipant Q (vol_fields (data vrow)) None (world vs) = (Resolved (Some np), wa)
        \<and> addVolunteer Q (vol_volunteer (pid np) (data vrow) d) wa = (Rejected, wb)"
  then show "vol_row Q clock pm vrow vs
        = vol_fail (vs\<lparr>world := wb,
                      calls := calls vs
                        @ [Call_addParticipant (vol_fields (data vrow)) None (Resolved (Some np)),
                           Call_addVolunteer (vol_volunteer (pid np) (data vrow) d) Rejected]\<rparr>)"
    by (simp add: vol_row_def vol_try_def await_addParticipant_def await_addVolunteer_def)
next
  assume "status vrow = Vol_New_Participant \<and> vol_try_startDate clock (data vrow) = Some d
        \<and> addParticipant Q (vol_fields (data vrow)) None (world vs) = (Resolved (Some np), wa)
        \<and> addVolunteer Q (vol_volunteer (pid np) (data vrow) d) wa = (Resolved rv, wb)"
  then show "vol_row Q clock pm vrow vs
        = vs\<lparr>world := wb,
             calls := calls vs
               @ [Call_addParticipant (vol_fields (data vrow)) None (Resolved (Some np)),
                  Call_addVolunteer (vol_volunteer (pid np) (data vrow) d) (Resolved rv)],
             vstats := (vstats vs)\<lparr>new := new (vstats vs) + 1\<rparr>\<rparr>"
    by (simp add: vol_row_def vol_try_def await_addParticipant_def await_addVolunteer_def)
next
  assume h: "status crow = Club_New_Participant
        \<and> fst (addParticipant P (club_fields club (data crow)) (Some (club_id club)) (world cs))
            = Resolved r"
  then show "\<exists>s'. club_row P club crow cs = Inr s'
           \<and> calls s' = calls cs @ [Call_addParticipant (club_fields club (data crow))
                                      (Some (club_id club)) (Resolved r)]
           \<and> (case r of
                 Some np \<Rightarrow> stats s' = (stats cs)\<lparr>new := new (stats cs) + 1\<rparr>
                            \<and> tempParticipants s' = tempParticipants cs @ [np]
               | None \<Rightarrow> stats s' = (stats cs)\<lparr>skipped := skipped (stats cs) + 1\<rparr>
                         \<and> tempParticipants s' = tempParticipants cs)"
    by (cases "addParticipant P (club_fields club (data crow)) (Some (club_id club)) (world cs)")
       (auto simp: club_row_def await_addParticipant_def club_skip_def split: option.splits)
qed


theorem C5_new_row_outcomes_witness:
  "status (preview Vol_New_Participant example_row) = Vol_New_Participant
   \<and> status (preview Vol_New_Participant (example_row @ [(''StartDate'', ''soon'')]))
       = Vol_New_Participant
   \<and> vol_try_startDate example_clock
         (data (preview Vol_New_Participant (example_row @ [(''StartDate'', ''soon'')]))) = None
   \<and> vol_row succeeding example_clock []
         (preview Vol_New_Participant (example_row @ [(''StartDate'', ''soon'')])) (vol_start 0)
       = \<lparr>world = 0, calls = [], vstats = \<lparr>new = 0, existing = 0, skipped = 0, failed = 1\<rparr>\<rparr>
   \<and> vol_try_startDate example_clock (data (preview Vol_New_Participant example_row))
       = Some 1730000000000
   \<and> addParticipant throwing (vol_fields (data (preview Vol_New_Participant example_row))) None
         (world (vol_start 0)) = (Rejected, 0)
   \<and> vol_row throwing example_clock [] (preview Vol_New_Participant example_row) (vol_start 0)
       = \<lparr>world = 0, calls = [Call_addParticipant (vol_fields example_row) None Rejected],
          vstats = \<lparr>new = 0, existing = 0, skipped = 0, failed = 1\<rparr>\<rparr>
   \<and> addParticipant refusing (vol_fields (data (preview Vol_New_Participant example_row))) None
         (world (vol_start 0)) = (Resolved None, 0)
   \<and> vol_row refusing example_clock [] (preview Vol_New_Participant example_row) (vol_start 0)
       = \<lparr>world = 0, calls = [Call_addParticipant (vol_fields example_row) None (Resolved None)],
          vstats = \<lparr>new = 0, existing = 0, skipped = 0, failed = 1\<rparr>\<rparr>
   \<and> addParticipant (succeeding\<lparr>addVolunteer := \<lambda>v w. (Rejected, w)\<rparr>)
         (vol_fields (data (preview Vol_New_Participant example_row))) None (world (vol_start 0))
       = (Resolved (Some (absorbed ''p'' 0 [] (vol_fields example_row))), 1)
   \<and> addVolunteer (succeeding\<lparr>addVolunteer := \<lambda>v w. (Rejected, w)\<rparr>)
         (vol_volunteer (pid (absorbed ''p'' 0 [] (vol_fields example_row)))
            (data (preview Vol_New_Participant example_row)) 1730000000000) 1
       = (Rejected, 1)
   \<and> vstats (vol_row (succeeding\<lparr>addVolunteer := \<lambda>v w. (Rejected, w)\<rparr>) example_clock []
               (preview Vol_New_Participant example_row) (vol_start 0))
       = \<lparr>new = 0, existing = 0, skipped = 0, failed = 1\<rparr>
   \<and> addParticipant succeeding (vol_fields (data (preview Vol_New_Participant example_row))) None
         (world (vol_start 0))
       = (Resolved (Some (absorbed ''p'' 0 [] (vol_fields example_row))), 1)
   \<and> addVolunteer succeeding
         (vol_volunteer (pid (absorbed ''p'' 0 [] (vol_fields example_row)))
            (data (preview Vol_New_Participant example_row)) 1730000000000) 1
       = (Resolved JUndefined, 1)
   \<and> vstats (vol_row succeeding example_clock [] (preview Vol_New_Participant example_row)
               (vol_start 0))
       = \<lparr>new = 1, existing = 0, skipped = 0, failed = 0\<rparr>
   \<and> status (preview Club_New_Participant example_row) = Club_New_Participant
   \<and> fst (addParticipant refusing
             (club_fields (example_club ''c1'' ''UG'') (data (preview Club_New_Participant example_row)))
             (Some (club_id (example_club ''c1'' ''UG''))) (world (club_start [] 0))) = Resolved None
   \<and> (\<exists>s'. club_row refusing (example_club ''c1'' ''UG'') (preview Club_New_Participant example_row)
               (club_start [] 0) = Inr s'
          \<and> stats s' = \<lparr>new = 0, existing = 0, skipped = 1\<rparr>)"
proof -
  let ?vnew = "preview Vol_New_Participant example_row"
  let ?vbad = "preview Vol_New_Participant (example_row @ [(''StartDate'', ''soon'')])"
  let ?np = "absorbed ''p'' 0 [] (vol_fields example_row)"
  let ?Qv = "succeeding\<lparr>addVolunteer := \<lambda>v w. (Rejected, w)\<rparr>"
  let ?d = "1730000000000 :: int"
  have h1: "status ?vnew = Vol_New_Participant" and h0: "status ?vbad = Vol_New_Participant"
    and h2: "status (preview Club_New_Participant example_row) = Club_New_Participant"
    by (simp_all add: preview_def)
  have d0: "vol_try_startDate example_clock (data ?vbad) = None"
    by (simp add: vol_try_startDate_def preview_def example_row_def cell_def truthy_def
        example_clock_def)
  have d1: "vol_try_startDate example_clock (data ?vnew) = Some ?d"
    by (simp add: vol_try_startDate_def preview_def example_row_def cell_def truthy_def
        example_clock_def)
  have at: "addParticipant throwing (vol_fields (data ?vnew)) None (world (vol_start (0::nat)))
            = (Rejected, 0)"
    by (simp add: throwing_def vol_start_def)
  have ar: "addParticipant refusing (vol_fields (data ?vnew)) None (world (vol_start (0::nat)))
            = (Resolved None, 0)"
    by (simp add: refusing_def vol_start_def)
  have av: "addParticipant ?Qv (vol_fields (data ?vnew)) None (world (vol_start (0::nat)))
            = (Resolved (Some ?np), 1)"
    by (simp add: succeeding_def vol_start_def preview_def)
  have asu: "addParticipant succeeding (vol_fields (data ?vnew)) None (world (vol_start (0::nat)))
            = (Resolved (Some ?np), 1)"
    by (simp add: succeeding_def vol_start_def preview_def)
  have vv: "addVolunteer ?Qv (vol_volunteer (pid ?np) (data ?vnew) ?d) (1::nat) = (Rejected, 1)"
    by (simp add: succeeding_def)
  have vs: "addVolunteer succeeding (vol_volunteer (pid ?np) (data ?vnew) ?d) (1::nat)
            = (Resolved JUndefined, 1)"
    by (simp add: succeeding_def)
  have h3: "fst (addParticipant refusing
             (club_fields (example_club ''c1'' ''UG'') (data (preview Club_New_Participant example_row)))
             (Some (club_id (example_club ''c1'' ''UG''))) (world (club_start [] (0::nat)))) = Resolved None"
    by (simp add: refusing_def)
  have c0: "vol_row succeeding example_clock [] ?vbad (vol_start 0)
       = \<lparr>world = 0, calls = [], vstats = \<lparr>new = 0, existing = 0, skipped = 0, failed = 1\<rparr>\<rparr>"
    using C5_new_row_outcomes[where vrow = ?vbad and clock = example_clock and Q = succeeding
        and pm = "[]" and vs = "vol_start 0", THEN conjunct1, THEN mp, OF conjI[OF h0 d0]]
    by (simp add: vol_fail_def vol_start_def)
  have ct: "vol_row throwing example_clock [] ?vnew (vol_start 0)
       = \<lparr>world = 0, calls = [Call_addParticipant (vol_fields example_row) None Rejected],
          vstats = \<lparr>new = 0, existing = 0, skipped = 0, failed = 1\<rparr>\<rparr>"
    using C5_new_row_outcomes[where vrow = ?vnew and clock = example_clock and Q = throwing
        and pm = "[]" and vs = "vol_start 0" and d = ?d and ra = Rejected and wa = 0,
        THEN conjunct2, THEN conjunct1, THEN mp,
        OF conjI[OF h1 conjI[OF d1 conjI[OF at disjI1[OF refl]]]]]
    by (simp add: vol_fail_def vol_start_def preview_def)
  have cr: "vol_row refusing example_clock [] ?vnew (vol_start 0)
       = \<lparr>world = 0, calls = [Call_addParticipant (vol_fields example_row) None (Resolved None)],
          vstats = \<lparr>new = 0, existing = 0, skipped = 0, failed = 1\<rparr>\<rparr>"
    using C5_new_row_outcomes[where vrow = ?vnew and clock = example_clock and Q = refusing
        and pm = "[]" and vs = "vol_start 0" and d = ?d and ra = "Resolved None" and wa = 0,
        THEN conjunct2, THEN conjunct1, THEN mp,
        OF conjI[OF h1 conjI[OF d1 conjI[OF ar disjI2[OF refl]]]]]
    by (simp add: vol_fail_def vol_start_def preview_def)
  have cv: "vstats (vol_row ?Qv example_clock [] ?vnew (vol_start 0))
       = \<lparr>new = 0, existing = 0, skipped = 0, failed = 1\<rparr>"
    using C5_new_row_outcomes[where vrow = ?vnew and clock = example_clock and Q = ?Qv
        and pm = "[]" and vs = "vol_start 0" and d = ?d and np = ?np and wa = 1 and wb = 1,
        THEN conjunct2, THEN conjunct2, THEN conjunct1, THEN mp,
        OF conjI[OF h1 conjI[OF d1 conjI[OF av vv]]]]
    by (simp add: vol_fail_def vol_start_def)
  have cs: "vstats (vol_row succeeding example_clock [] ?vnew (vol_start 0))
       = \<lparr>new = 1, existing = 0, skipped = 0, failed = 0\<rparr>"
    using C5_new_row_outcomes[where vrow = ?vnew and clock = example_clock and Q = succeeding
        and pm = "[]" and vs = "vol_start 0" and d = ?d and np = ?np and wa = 1 and wb = 1
        and rv = JUndefined,
        THEN conjunct2, THEN conjunct2, THEN conjunct2, THEN conjunct1, THEN mp,
        OF conjI[OF h1 conjI[OF d1 conjI[OF asu vs]]]]
    by (simp add: vol_start_def)
  have c2: "\<exists>s'. club_row refusing (example_club ''c1'' ''UG'') (preview Club_New_Participant example_row)
               (club_start [] 0) = Inr s'
          \<and> stats s' = \<lparr>new = 0, existing = 0, skipped = 1\<rparr>"
    using C5_new_row_outcomes[where crow = "preview Club_New_Participant example_row"
        and P = refusing and club = "example_club ''c1'' ''UG''" and cs = "club_start [] 0"
        and r = None,
        THEN conjunct2, THEN conjunct2, THEN conjunct2, THEN conjunct2, THEN mp,
        OF conjI[OF h2 h3]]
    by (auto simp: club_start_def)
  show ?thesis
    by (intro conjI; (rule h0 h1 h2 h3 d0 d1 at ar av asu vv vs c0 ct cr cv cs c2))
qed

section \<open>Import execution: rows with status Existing\<close>

lemma created_append: "created_participants (xs @ ys) = created_participants xs @ created_participants ys"
  by (induction xs rule: created_participants.induct) simp_all

lemma club_row_shadow:
  assumes "club_row P club row s = Inr s'"
  shows "\<exists>cs. calls s' = calls s @ cs
           \<and> tempParticipants s' = tempParticipants s @ created_participants cs"
  using assms
  by (cases "status row")
     (auto simp: club_row_def club_skip_def await_addParticipant_def await_addClubMembership_def
        Let_def split: option.splits prod.splits awaited.splits if_splits)

lemma club_loop_shadow:
  assumes "club_loop P club rows s = Inr s'"
  shows "\<exists>cs. calls s' = calls s @ cs
           \<and> tempParticipants s' = tempParticipants s @ created_participants cs"
  using assms
proof (induction rows arbitrary: s)
  case Nil
  then show ?case by simp
next
  case (Cons row rows)
  from Cons.prems obtain s1 where s1: "club_row P club row s = Inr s1"
    and rest: "club_loop P club rows s1 = Inr s'"
    by (auto split: sum.splits)
  from club_row_shadow[OF s1] obtain c1 where c1: "calls s1 = calls s @ c1"
    "tempParticipants s1 = tempParticipants s @ created_participants c1" by blast
  from Cons.IH[OF rest] obtain c2 where c2: "calls s' = calls s1 @ c2"
    "tempParticipants s' = tempParticipants s1 @ created_participants c2" by blast
  have "calls s' = calls s @ (c1 @ c2)
        \<and> tempParticipants s' = tempParticipants s @ created_participants (c1 @ c2)"
    using c1 c2 by (simp add: created_append)
  then show ?case by blast
qed

lemma club_handleImport_shadow:
  assumes "club_handleImport P club ps rows w = Inr s"
  shows "tempParticipants s = ps @ created_participants (calls s)"
  using club_loop_shadow[OF assms[unfolded club_handleImport_def]]
  by (auto simp: club_start_def)

lemma vol_loop_append:
  "vol_loop Q clock pm (xs @ ys) s = vol_loop Q clock pm ys (vol_loop Q clock pm xs s)"
  by (induction xs arbitrary: s) simp_all

lemma Map_get_None_iff:
  "(Map_get (map (\<lambda>p. (f p, p)) ps) k = None) = (k \<notin> f ` set ps)"
  by (simp add: Map_get_def map_of_eq_None_iff rev_map[symmetric] image_image)

text \<open>
  Claim C3 as stated fails in the volunteer import: an Existing row is looked up in the
  map built from the participants the dialog holds, never in a shadow copy. Here the
  preview of a two-row file classifies the first row New and the second Existing. The
  import looks the second row up under the lower-cased Name and Contact as they stand
  in the file; the participant created by the first row is the only one with that key,
  and the row is counted as failed. The claim also fails in the club-member import,
  whose summary has no failed counter: an Existing row whose participant is no longer
  among the participants when the import runs is counted as skipped.
\<close>

theorem C3_volunteer_lookup_ignores_created:
  "map_option (map status)
       (vol_processFile [example_participant ''p1'' ''a'' ''b_c'' ''UG''] []
          [[(''Name'', ''a _b''), (''Contact'', ''c''), (''Role'', ''Mentor'')],
           [(''Name'', ''a ''), (''Contact'', ''b_c''), (''Role'', ''Mentor'')]])
     = Some [Vol_New_Participant, Vol_Existing_Participant]
   \<and> map_option
       (\<lambda>previewData.
          vstats (vol_handleImport succeeding example_clock
                    [example_participant ''p1'' ''a'' ''b_c'' ''UG''] previewData 0))
       (vol_processFile [example_participant ''p1'' ''a'' ''b_c'' ''UG''] []
          [[(''Name'', ''a _b''), (''Contact'', ''c''), (''Role'', ''Mentor'')],
           [(''Name'', ''a ''), (''Contact'', ''b_c''), (''Role'', ''Mentor'')]])
     = Some \<lparr>new = 1, existing = 0, skipped = 0, failed = 1\<rparr>
   \<and> map_option
       (\<lambda>previewData.
          map (\<lambda>p. vol_key (name p) (contact p))
            (created_participants
               (calls (vol_handleImport succeeding example_clock
                         [example_participant ''p1'' ''a'' ''b_c'' ''UG''] previewData 0))))
       (vol_processFile [example_participant ''p1'' ''a'' ''b_c'' ''UG''] []
          [[(''Name'', ''a _b''), (''Contact'', ''c''), (''Role'', ''Mentor'')],
           [(''Name'', ''a ''), (''Contact'', ''b_c''), (''Role'', ''Mentor'')]])
     = Some [vol_key ''a '' ''b_c'']
   \<and> map status
         (club_processFile [example_participant ''p1'' ''Ama'' ''024'' ''UG''] []
            (example_club ''c1'' ''UG'') [example_row])
       = [Club_Existing_Participant]
   \<and> map_sum id stats
         (club_handleImport succeeding (example_club ''c1'' ''UG'') []
            (club_processFile [example_participant ''p1'' ''Ama'' ''024'' ''UG''] []
               (example_club ''c1'' ''UG'') [example_row]) 0)
       = Inr \<lparr>new = 0, existing = 0, skipped = 1\<rparr>"
proof -
  have lo: "toLowerCase ''a'' = ''a''" "toLowerCase ''b_c'' = ''b_c''"
    "toLowerCase ''a _b'' = ''a _b''" "toLowerCase ''c'' = ''c''" "toLowerCase ''a '' = ''a ''"
    by code_simp+
  have tr: "trim ''a _b'' = ''a _b''" "trim ''c'' = ''c''" "trim ''a '' = ''a''"
    "trim ''b_c'' = ''b_c''" "trim ''Mentor'' = ''Mentor''"
    by (simp_all add: trim_def is_whitespace_def)
  show ?thesis
    by (simp add: vol_processFile_def vol_validate_def opt_trim_def cell_def truthy_def tr lo
      VOLUNTEER_ROLES_LIST_def vol_participantMap_def volunteerParticipantIds_def Map_get_def
      vol_key_def example_participant_def Let_def
      vol_handleImport_def vol_start_def vol_row_def vol_try_def vol_try_startDate_def
      example_clock_def succeeding_def await_addParticipant_def
      await_addVolunteer_def vol_fail_def
      vol_fields_def absorbed_def or_default_def vol_volunteer_def
      club_handleImport_def club_start_def club_row_def club_skip_def example_row_def
      club_processFile_def club_validate_def clubMemberIds_def)
qed

text \<open>
  Claim C3, amended. In the club-member import the shadow copy is the snapshot followed
  by every participant created so far in the run; a row with status Existing is resolved
  by the first participant of the shadow copy whose name and contact are exactly the
  row's Name and Contact. If there is one and the \<open>addClubMembership\<close> call for it
  returns, that call is the row's only call, and existing is incremented when it returned
  true, skipped when it returned false; if there is none, no call is made and skipped is
  incremented. In the volunteer import every row of a run is handled with the map built
  from the original snapshot, which holds a key exactly when a participant of the
  snapshot has it (names and contacts carrying no surrounding white space); a row with
  status Existing, a valid start date, and a Name and a Contact without surrounding white
  space is resolved by looking up lowercase(Name) + "_" + lowercase(Contact) in that map. If it
  is found, \<open>addVolunteer\<close> for the participant found is the row's only call, and
  existing is incremented when the call returns, failed when it throws; if it is not
  found, no call is made and failed is incremented.
\<close>

theorem C3_existing_row_resolution:
  "(club_handleImport P club ps cpre w = Inr cs \<and> status crow = Club_Existing_Participant \<longrightarrow>
      tempParticipants cs = ps @ created_participants (calls cs)
      \<and> (case find (\<lambda>p. Some (name p) = cell (data crow) ''Name''
                        \<and> Some (contact p) = cell (data crow) ''Contact'')
                 (ps @ created_participants (calls cs)) of
            None \<Rightarrow> club_row P club crow cs = Inr (club_skip cs)
          | Some p \<Rightarrow>
              (\<forall>ok. fst (addClubMembership P (pid p) (club_id club) (world cs)) = Resolved ok \<longrightarrow>
                 (\<exists>s'. club_row P club crow cs = Inr s'
                    \<and> calls s' = calls cs @ [Call_addClubMembership (pid p) (club_id club) (Resolved ok)]
                    \<and> stats s' = (if ok then (stats cs)\<lparr>existing := existing (stats cs) + 1\<rparr>
                                  else (stats cs)\<lparr>skipped := skipped (stats cs) + 1\<rparr>)))))
   \<and> vol_handleImport Q clock vps (vpre @ vrow # vpost) v
       = vol_loop Q clock (vol_participantMap vps) vpost
           (vol_row Q clock (vol_participantMap vps) vrow
              (vol_loop Q clock (vol_participantMap vps) vpre (vol_start v)))
   \<and> (list_all (\<lambda>p. trim (name p) = name p \<and> trim (contact p) = contact p) vps \<longrightarrow>
        (Map_get (vol_participantMap vps) k = None)
          = (k \<notin> (\<lambda>p. vol_key (trim (name p)) (trim (contact p))) ` set vps))
   \<and> (status vrow = Vol_Existing_Participant
        \<and> cell (data vrow) ''Name'' = Some nm \<and> cell (data vrow) ''Contact'' = Some ct
        \<and> trim nm = nm \<and> trim ct = ct
        \<and> vol_try_startDate clock (data vrow) = Some d \<longrightarrow>
      (case Map_get (vol_participantMap vps) (vol_key nm ct) of
         None \<Rightarrow> vol_row Q clock (vol_participantMap vps) vrow vs = vol_fail vs
       | Some p \<Rightarrow>
           calls (vol_row Q clock (vol_participantMap vps) vrow vs)
             = calls vs @ [Call_addVolunteer (vol_volunteer (pid p) (data vrow) d)
                             (fst (addVolunteer Q (vol_volunteer (pid p) (data vrow) d) (world vs)))]
           \<and> vstats (vol_row Q clock (vol_participantMap vps) vrow vs)
               = (case fst (addVolunteer Q (vol_volunteer (pid p) (data vrow) d) (world vs)) of
                    Resolved r \<Rightarrow> (vstats vs)\<lparr>existing := existing (vstats vs) + 1\<rparr>
                  | Rejected \<Rightarrow> (vstats vs)\<lparr>failed := failed (vstats vs) + 1\<rparr>)))"
proof (intro conjI impI)
  assume h: "club_handleImport P club ps cpre w = Inr cs \<and> status crow = Club_Existing_Participant"
  from h[THEN conjunct1] show t: "tempParticipants cs = ps @ created_participants (calls cs)"
    by (rule club_handleImport_shadow)
  show "case find (\<lambda>p. Some (name p) = cell (data crow) ''Name''
                        \<and> Some (contact p) = cell (data crow) ''Contact'')
                 (ps @ created_participants (calls cs)) of
            None \<Rightarrow> club_row P club crow cs = Inr (club_skip cs)
          | Some p \<Rightarrow>
              (\<forall>ok. fst (addClubMembership P (pid p) (club_id club) (world cs)) = Resolved ok \<longrightarrow>
                 (\<exists>s'. club_row P club crow cs = Inr s'
                    \<and> calls s' = calls cs @ [Call_addClubMembership (pid p) (club_id club) (Resolved ok)]
                    \<and> stats s' = (if ok then (stats cs)\<lparr>existing := existing (stats cs) + 1\<rparr>
                                  else (stats cs)\<lparr>skipped := skipped (stats cs) + 1\<rparr>)))"
    using h unfolding t[symmetric]
    by (auto simp: club_row_def club_skip_def await_addClubMembership_def Let_def
        split: option.splits prod.splits)
next
  show "vol_handleImport Q clock vps (vpre @ vrow # vpost) v
       = vol_loop Q clock (vol_participantMap vps) vpost
           (vol_row Q clock (vol_participantMap vps) vrow
              (vol_loop Q clock (vol_participantMap vps) vpre (vol_start v)))"
    by (simp add: vol_handleImport_def vol_loop_append)
next
  assume "list_all (\<lambda>p. trim (name p) = name p \<and> trim (contact p) = contact p) vps"
  then have "(\<lambda>p. vol_key (trim (name p)) (trim (contact p))) ` set vps
             = (\<lambda>p. vol_key (name p) (contact p)) ` set vps"
    by (intro image_cong) (auto simp: list_all_iff)
  then show "(Map_get (vol_participantMap vps) k = None)
          = (k \<notin> (\<lambda>p. vol_key (trim (name p)) (trim (contact p))) ` set vps)"
    unfolding vol_participantMap_def Map_get_None_iff by simp
next
  assume "status vrow = Vol_Existing_Participant
        \<and> cell (data vrow) ''Name'' = Some nm \<and> cell (data vrow) ''Contact'' = Some ct
        \<and> trim nm = nm \<and> trim ct = ct
        \<and> vol_try_startDate clock (data vrow) = Some d"
  then show "case Map_get (vol_participantMap vps) (vol_key nm ct) of
         None \<Rightarrow> vol_row Q clock (vol_participantMap vps) vrow vs = vol_fail vs
       | Some p \<Rightarrow>
           calls (vol_row Q clock (vol_participantMap vps) vrow vs)
             = calls vs @ [Call_addVolunteer (vol_volunteer (pid p) (data vrow) d)
                             (fst (addVolunteer Q (vol_volunteer (pid p) (data vrow) d) (world vs)))]
           \<and> vstats (vol_row Q clock (vol_participantMap vps) vrow vs)
               = (case fst (addVolunteer Q (vol_volunteer (pid p) (data vrow) d) (world vs)) of
                    Resolved r \<Rightarrow> (vstats vs)\<lparr>existing := existing (vstats vs) + 1\<rparr>
                  | Rejected \<Rightarrow> (vstats vs)\<lparr>failed := failed (vstats vs) + 1\<rparr>)"
    by (auto simp: vol_row_def vol_try_def vol_try_startDate_def vol_fail_def await_addVolunteer_def Let_def
        split: option.splits prod.splits awaited.splits)
qed

theorem C3_existing_row_resolution_witness:
  "map status
       (club_processFile [example_participant ''p1'' ''Ama'' ''024'' ''UG''] []
          (example_club ''c1'' ''UG'') [[(''Name'', ''Kofi''), (''Contact'', ''055'')], example_row])
     = [Club_New_Participant, Club_Existing_Participant]
   \<and> club_handleImport succeeding (example_club ''c1'' ''UG'')
       [example_participant ''p1'' ''Ama'' ''024'' ''UG'']
       [preview Club_New_Participant [(''Name'', ''Kofi''), (''Contact'', ''055'')]] 0
     = Inr \<lparr>world = 1,
            calls = [Call_addParticipant
                       (club_fields (example_club ''c1'' ''UG'')
                          [(''Name'', ''Kofi''), (''Contact'', ''055'')])
                       (Some ''c1'')
                       (Resolved (Some (absorbed ''p'' 0 []
                          (club_fields (example_club ''c1'' ''UG'')
                             [(''Name'', ''Kofi''), (''Contact'', ''055'')]))))],
            stats = \<lparr>new = 1, existing = 0, skipped = 0\<rparr>,
            tempParticipants =
              [example_participant ''p1'' ''Ama'' ''024'' ''UG'',
               absorbed ''p'' 0 []
                 (club_fields (example_club ''c1'' ''UG'')
                    [(''Name'', ''Kofi''), (''Contact'', ''055'')])]\<rparr>
   \<and> status (preview Club_Existing_Participant example_row) = Club_Existing_Participant
   \<and> (\<exists>s'. club_row succeeding (example_club ''c1'' ''UG'')
               (preview Club_Existing_Participant example_row)
               \<lparr>world = 1,
                calls = [Call_addParticipant
                           (club_fields (example_club ''c1'' ''UG'')
                              [(''Name'', ''Kofi''), (''Contact'', ''055'')])
                           (Some ''c1'')
                           (Resolved (Some (absorbed ''p'' 0 []
                              (club_fields (example_club ''c1'' ''UG'')
                                 [(''Name'', ''Kofi''), (''Contact'', ''055'')]))))],
                stats = \<lparr>new = 1, existing = 0, skipped = 0\<rparr>,
                tempParticipants =
                  [example_participant ''p1'' ''Ama'' ''024'' ''UG'',
                   absorbed ''p'' 0 []
                     (club_fields (example_club ''c1'' ''UG'')
                        [(''Name'', ''Kofi''), (''Contact'', ''055'')])]\<rparr>
             = Inr s'
          \<and> calls s'
              = [Call_addParticipant
                   (club_fields (example_club ''c1'' ''UG'')
                      [(''Name'', ''Kofi''), (''Contact'', ''055'')])
                   (Some ''c1'')
                   (Resolved (Some (absorbed ''p'' 0 []
                      (club_fields (example_club ''c1'' ''UG'')
                         [(''Name'', ''Kofi''), (''Contact'', ''055'')])))),
                 Call_addClubMembership ''p1'' ''c1'' (Resolved True)]
          \<and> stats s' = \<lparr>new = 1, existing = 1, skipped = 0\<rparr>)
   \<and> status (preview Vol_Existing_Participant example_row) = Vol_Existing_Participant
   \<and> cell (data (preview Vol_Existing_Participant example_row)) ''Name'' = Some ''Ama''
   \<and> cell (data (preview Vol_Existing_Participant example_row)) ''Contact'' = Some ''024''
   \<and> trim ''Ama'' = ''Ama'' \<and> trim ''024'' = ''024''
   \<and> vol_try_startDate example_clock (data (preview Vol_Existing_Participant example_row))
       = Some 1730000000000
   \<and> list_all (\<lambda>p. trim (name p) = name p \<and> trim (contact p) = contact p)
         [example_participant ''p1'' ''Ama'' ''024'' ''UG'']
   \<and> Map_get (vol_participantMap [example_participant ''p1'' ''Ama'' ''024'' ''UG''])
         (vol_key ''Kofi'' ''055'') = None
   \<and> calls (vol_row succeeding example_clock
               (vol_participantMap [example_participant ''p1'' ''Ama'' ''024'' ''UG''])
               (preview Vol_Existing_Participant example_row) (vol_start 0))
       = [Call_addVolunteer (vol_volunteer ''p1'' example_row 1730000000000) (Resolved JUndefined)]
   \<and> vstats (vol_row succeeding example_clock
               (vol_participantMap [example_participant ''p1'' ''Ama'' ''024'' ''UG''])
               (preview Vol_Existing_Participant example_row) (vol_start 0))
       = \<lparr>new = 0, existing = 1, skipped = 0, failed = 0\<rparr>"
proof -
  let ?club = "example_club ''c1'' ''UG''"
  let ?ama = "example_participant ''p1'' ''Ama'' ''024'' ''UG''"
  let ?kofi = "[(''Name'', ''Kofi''), (''Contact'', ''055'')]"
  let ?np = "absorbed ''p'' 0 [] (club_fields ?club ?kofi)"
  let ?S = "\<lparr>world = 1::nat,
            calls = [Call_addParticipant (club_fields ?club ?kofi) (Some ''c1'')
                       (Resolved (Some ?np))],
            stats = \<lparr>new = 1, existing = 0, skipped = 0\<rparr>,
            tempParticipants = [?ama, ?np]\<rparr>"
  let ?crow = "preview Club_Existing_Participant example_row"
  let ?vrow = "preview Vol_Existing_Participant example_row"
  let ?vps = "[example_participant ''p1'' ''Ama'' ''024'' ''UG'']"
  have h0: "map status (club_processFile [?ama] [] ?club [?kofi, example_row])
            = [Club_New_Participant, Club_Existing_Participant]"
    by (simp add: club_processFile_def club_validate_def clubMemberIds_def example_row_def
        cell_def truthy_def example_participant_def)
  have h1: "club_handleImport succeeding ?club [?ama] [preview Club_New_Participant ?kofi] 0
            = Inr ?S"
    by (simp add: club_handleImport_def club_start_def club_row_def preview_def succeeding_def
        await_addParticipant_def example_club_def)
  have h2: "status ?crow = Club_Existing_Participant"
    by (simp add: preview_def)
  have h3: "status ?vrow = Vol_Existing_Participant
        \<and> cell (data ?vrow) ''Name'' = Some ''Ama'' \<and> cell (data ?vrow) ''Contact'' = Some ''024''
        \<and> trim ''Ama'' = ''Ama'' \<and> trim ''024'' = ''024''
        \<and> vol_try_startDate example_clock (data ?vrow) = Some 1730000000000"
    by (simp add: preview_def example_row_def cell_def truthy_def example_clock_def trim_def
        is_whitespace_def vol_try_startDate_def)
  note t = C3_existing_row_resolution[where P = succeeding and club = ?club and ps = "[?ama]"
      and cpre = "[preview Club_New_Participant ?kofi]" and w = 0 and cs = ?S
      and crow = ?crow and Q = succeeding and clock = example_clock and vps = ?vps
      and vrow = ?vrow and nm = "''Ama''" and ct = "''024''" and d = 1730000000000
      and vs = "vol_start 0"]
  have f: "find (\<lambda>p. Some (name p) = cell (data ?crow) ''Name''
                        \<and> Some (contact p) = cell (data ?crow) ''Contact'')
                 ([?ama] @ created_participants (calls ?S)) = Some ?ama"
    by (simp add: preview_def example_row_def cell_def example_participant_def)
  have m: "fst (addClubMembership succeeding (pid ?ama) (club_id ?club) (world ?S)) = Resolved True"
    by (simp add: succeeding_def)
  have idp: "pid ?ama = ''p1''" "club_id ?club = ''c1''"
    by (simp_all add: example_participant_def example_club_def)
  have c1: "\<exists>s'. club_row succeeding ?club ?crow ?S = Inr s'
          \<and> calls s' = [Call_addParticipant (club_fields ?club ?kofi) (Some ''c1'')
                           (Resolved (Some ?np)),
                         Call_addClubMembership ''p1'' ''c1'' (Resolved True)]
          \<and> stats s' = \<lparr>new = 1, existing = 1, skipped = 0\<rparr>"
    using t[THEN conjunct1, THEN mp, OF conjI[OF h1 h2], THEN conjunct2, unfolded f option.case,
        THEN spec[where x = True], THEN mp, OF m]
    by (simp add: idp)
  have g: "Map_get (vol_participantMap ?vps) (vol_key ''Ama'' ''024'')
           = Some (example_participant ''p1'' ''Ama'' ''024'' ''UG'')"
    by (simp add: Map_get_def vol_participantMap_def example_participant_def)
  have v: "\<And>x w. fst (addVolunteer succeeding x (w::nat)) = Resolved JUndefined"
    by (simp add: succeeding_def)
  have c2: "calls (vol_row succeeding example_clock (vol_participantMap ?vps) ?vrow (vol_start 0))
       = [Call_addVolunteer (vol_volunteer ''p1'' example_row 1730000000000) (Resolved JUndefined)]
     \<and> vstats (vol_row succeeding example_clock (vol_participantMap ?vps) ?vrow (vol_start 0))
       = \<lparr>new = 0, existing = 1, skipped = 0, failed = 0\<rparr>"
    using t[THEN conjunct2, THEN conjunct2, THEN conjunct2, THEN mp, OF h3, unfolded g option.case]
    by (simp add: v vol_start_def example_participant_def preview_def)
  have h4: "list_all (\<lambda>p. trim (name p) = name p \<and> trim (contact p) = contact p) ?vps"
    by (simp add: example_participant_def trim_def is_whitespace_def)
  have ne: "vol_key ''Kofi'' ''055'' \<noteq> vol_key (trim ''Ama'') (trim ''024'')"
    by code_simp
  have c3: "Map_get (vol_participantMap ?vps) (vol_key ''Kofi'' ''055'') = None"
    using t[where k = "vol_key ''Kofi'' ''055''", THEN conjunct2, THEN conjunct2, THEN conjunct1,
        THEN mp, OF h4] ne
    by (simp add: example_participant_def)
  show ?thesis
    using h0 h1 h2 h3 h4 c1 c2 c3 by (intro conjI) (simp_all only: simp_thms)
qed

section \<open>Import execution: a failed write and the rest of the batch\<close>

text \<open>
  Claim C4 fails on the code: the loop of the club-member import has no \<open>try\<close>. On the
  preview of a file with a valid row and an empty row, when the creation call of the
  first row throws, \<open>handleImport\<close> throws: the second row is not processed and no
  summary is produced. The volunteer import makes the same calls inside a \<open>try\<close>
  whose \<open>catch\<close> counts the row as failed: on the same file and the same persistence
  layer its loop goes on to the second row and ends with its summary.
\<close>

theorem C4_club_throw_aborts_batch:
  "map status (club_processFile [] [] (example_club ''c1'' ''UG'') [example_row, []])
     = [Club_New_Participant, Club_Invalid_Data]
   \<and> club_handleImport throwing (example_club ''c1'' ''UG'') []
       (club_processFile [] [] (example_club ''c1'' ''UG'') [example_row, []]) 0
     = Inl Rejection
   \<and> map_option (map status) (vol_processFile [] [] [example_row, []])
     = Some [Vol_New_Participant, Vol_Invalid_Data]
   \<and> map_option (\<lambda>previewData. vstats (vol_handleImport throwing example_clock [] previewData 0))
       (vol_processFile [] [] [example_row, []])
     = Some \<lparr>new = 0, existing = 0, skipped = 1, failed = 1\<rparr>"
  by (simp add: club_processFile_def club_validate_def clubMemberIds_def example_row_def
      cell_def truthy_def club_handleImport_def club_row_def throwing_def
      await_addParticipant_def vol_processFile_def vol_validate_def opt_trim_def trim_def
      is_whitespace_def
      VOLUNTEER_ROLES_LIST_def vol_participantMap_def volunteerParticipantIds_def Map_get_def
      vol_handleImport_def vol_start_def vol_row_def vol_try_def vol_try_startDate_def
      example_clock_def vol_fail_def vol_skip_def Let_def)

section \<open>Preview: blank rows and required fields\<close>

lemma blank_cell: "list_all (\<lambda>val. val = []) (Object_values row) \<Longrightarrow> \<not> truthy (cell row k)"
  by (auto simp: Object_values_def cell_def truthy_def list_all_iff split: option.splits
      dest!: map_of_SomeD)

lemma trim_Nil: "trim [] = []"
  by (simp add: trim_def)

lemma blank_cell_trim:
  "list_all (\<lambda>val. val = []) (Object_values row) \<Longrightarrow> \<not> truthy (opt_trim (cell row k))"
  using blank_cell[of row k]
  by (cases "cell row k") (auto simp: truthy_def opt_trim_def trim_Nil)

lemma not_truthy_js_or: "\<not> truthy a \<Longrightarrow> \<not> truthy b \<Longrightarrow> \<not> truthy (js_or a b)"
  by (simp add: js_or_def)

lemma part_validate_blank:
  "list_all (\<lambda>val. val = []) (Object_values row) \<Longrightarrow> part_validate pm row = None"
  by (simp add: part_validate_def part_name_def part_contact_def not_truthy_js_or blank_cell_trim)

lemma part_validate_data: "part_validate pm row = Some r \<Longrightarrow> data r = row"
  by (auto simp: part_validate_def Let_def split: if_splits)

lemma length_map_filter_le: "length (List.map_filter f xs) \<le> length xs"
  by (induction xs) (auto split: option.splits)

lemma length_map_filter_less:
  "x \<in> set xs \<Longrightarrow> f x = None \<Longrightarrow> length (List.map_filter f xs) < length xs"
proof (induction xs)
  case Nil
  then show ?case by simp
next
  case (Cons a xs)
  show ?case
  proof (cases "f a")
    case None
    then show ?thesis
      using length_map_filter_le[of f xs] by simp
  next
    case (Some y)
    with Cons have "x \<in> set xs" by auto
    with Cons Some show ?thesis by simp
  qed
qed

lemma set_map_filter: "set (List.map_filter f xs) = {y. \<exists>x \<in> set xs. f x = Some y}"
  by (induction xs) (auto split: option.splits)

text \<open>
  Claim C7 as stated fails in the club-member import (and in the volunteer import): a row
  whose cells are all empty stays in the preview, with status Invalid Data, and the
  preview is as long as the input.
\<close>

theorem C7_club_keeps_blank_row:
  "list_all (\<lambda>val. val = []) (Object_values [(''Name'', []), (''Contact'', [])])
   \<and> map status (club_processFile [] [] (example_club ''c1'' ''UG'')
                    [[(''Name'', []), (''Contact'', [])]]) = [Club_Invalid_Data]
   \<and> map_option (map status) (vol_processFile [] [] [[(''Name'', []), (''Contact'', [])]])
       = Some [Vol_Invalid_Data]"
  by (simp add: club_processFile_def club_validate_def Object_values_def cell_def truthy_def
      vol_processFile_def vol_validate_def opt_trim_def)

text \<open>
  Claim C7, amended. The participant import drops every row whose cells are all empty: the
  row is in the preview under no status, and the preview is strictly shorter than the input
  when there is such a row. The club-member import and the volunteer import keep such a
  row, with status Invalid Data, and their previews are as long as the input.
\<close>

theorem C7_blank_rows:
  "(list_all (\<lambda>val. val = []) (Object_values row) \<longrightarrow>
      part_validate pm row = None
      \<and> status (club_validate ps mids row) = Club_Invalid_Data
      \<and> status (vol_validate vm vids row) = Vol_Invalid_Data)
   \<and> (part_processFile ps rows = Some pv \<longrightarrow>
        list_all (\<lambda>r. \<not> list_all (\<lambda>val. val = []) (Object_values (data r))) pv)
   \<and> (part_processFile ps rows = Some pv
        \<and> list_ex (\<lambda>r. list_all (\<lambda>val. val = []) (Object_values r)) rows \<longrightarrow>
        length pv < length rows)
   \<and> length (club_processFile ps cms club rows) = length rows
   \<and> (vol_processFile ps vols rows = Some vv \<longrightarrow> length vv = length rows)"
proof (intro conjI impI)
  assume b: "list_all (\<lambda>val. val = []) (Object_values row)"
  show "part_validate pm row = None"
    using b by (rule part_validate_blank)
  show "status (club_validate ps mids row) = Club_Invalid_Data"
    using blank_cell[OF b, of "''Name''"] by (simp add: club_validate_def)
  show "status (vol_validate vm vids row) = Vol_Invalid_Data"
    using blank_cell_trim[OF b, of "''Name''"] by (simp add: vol_validate_def)
next
  assume "part_processFile ps rows = Some pv"
  then have pv: "pv = List.map_filter (part_validate (part_participantMap ps)) rows"
    by (simp add: part_processFile_def split: if_splits)
  have "\<not> list_all (\<lambda>val. val = []) (Object_values (data r))" if "r \<in> set pv" for r
  proof
    assume b: "list_all (\<lambda>val. val = []) (Object_values (data r))"
    from that obtain x where x: "part_validate (part_participantMap ps) x = Some r"
      unfolding pv set_map_filter by blast
    from part_validate_data[OF x] b have "part_validate (part_participantMap ps) x = None"
      by (simp add: part_validate_blank)
    with x show False by simp
  qed
  then show "list_all (\<lambda>r. \<not> list_all (\<lambda>val. val = []) (Object_values (data r))) pv"
    by (simp add: list_all_iff)
next
  assume "part_processFile ps rows = Some pv
        \<and> list_ex (\<lambda>r. list_all (\<lambda>val. val = []) (Object_values r)) rows"
  then have pv: "pv = List.map_filter (part_validate (part_participantMap ps)) rows"
    and "\<exists>r \<in> set rows. list_all (\<lambda>val. val = []) (Object_values r)"
    by (simp_all add: part_processFile_def list_ex_iff split: if_splits)
  then obtain r where "r \<in> set rows" "part_validate (part_participantMap ps) r = None"
    using part_validate_blank by blast
  then show "length pv < length rows"
    unfolding pv by (rule length_map_filter_less)
next
  show "length (club_processFile ps cms club rows) = length rows"
    by (simp add: club_processFile_def)
next
  assume "vol_processFile ps vols rows = Some vv"
  then show "length vv = length rows"
    by (auto simp: vol_processFile_def split: if_splits)
qed

theorem C7_blank_rows_witness:
  "list_all (\<lambda>val. val = []) (Object_values [(''NAMES'', []), (''CONTACT'', [])])
   \<and> part_validate [] [(''NAMES'', []), (''CONTACT'', [])] = None
   \<and> status (club_validate [] [] [(''NAMES'', []), (''CONTACT'', [])]) = Club_Invalid_Data
   \<and> status (vol_validate [] [] [(''NAMES'', []), (''CONTACT'', [])]) = Vol_Invalid_Data
   \<and> part_processFile []
         [[(''NAMES'', []), (''CONTACT'', [])], [(''NAMES'', ''Ama''), (''CONTACT'', ''024'')]]
       = Some [\<lparr>data = [(''NAMES'', ''Ama''), (''CONTACT'', ''024'')],
                 status = Part_New_Participant, message = ''Will be created''\<rparr>]
   \<and> list_all (\<lambda>r. \<not> list_all (\<lambda>val. val = []) (Object_values (data r)))
         [\<lparr>data = [(''NAMES'', ''Ama''), (''CONTACT'', ''024'')],
           status = Part_New_Participant, message = ''Will be created''\<rparr>]
   \<and> list_ex (\<lambda>r. list_all (\<lambda>val. val = []) (Object_values r))
         [[(''NAMES'', []), (''CONTACT'', [])], [(''NAMES'', ''Ama''), (''CONTACT'', ''024'')]]
   \<and> length [\<lparr>data = [(''NAMES'', ''Ama''), (''CONTACT'', ''024'')],
                status = Part_New_Participant, message = ''Will be created''\<rparr>]
       < length [[(''NAMES'', []), (''CONTACT'', [])], [(''NAMES'', ''Ama''), (''CONTACT'', ''024'')]]
   \<and> vol_processFile [] [] [[(''NAMES'', []), (''CONTACT'', [])]]
       = Some [\<lparr>data = [(''NAMES'', []), (''CONTACT'', [])], status = Vol_Invalid_Data,
                 message = ''Missing Name, Contact, or Role''\<rparr>]
   \<and> length [\<lparr>data = [(''NAMES'', []), (''CONTACT'', [])], status = Vol_Invalid_Data,
                 message = ''Missing Name, Contact, or Role''\<rparr>]
       = length [[(''NAMES'', []), (''CONTACT'', [] :: string)]]"
proof -
  let ?blank = "[(''NAMES'', []), (''CONTACT'', [])]"
  let ?good = "[(''NAMES'', ''Ama''), (''CONTACT'', ''024'')]"
  let ?pv = "[\<lparr>data = ?good, status = Part_New_Participant, message = ''Will be created''\<rparr>]"
  let ?vv = "[\<lparr>data = ?blank, status = Vol_Invalid_Data,
                 message = ''Missing Name, Contact, or Role''\<rparr>]"
  have h1: "list_all (\<lambda>val. val = []) (Object_values ?blank)"
    by (simp add: Object_values_def)
  have tr: "trim ''Ama'' = ''Ama''" "trim ''024'' = ''024''"
    by (simp_all add: trim_def is_whitespace_def)
  have lo: "toLowerCase ''Ama'' = ''ama''"
    by code_simp
  have h2: "part_processFile [] [?blank, ?good] = Some ?pv"
    by (simp add: part_processFile_def part_validate_def part_name_def part_contact_def
        cell_def opt_trim_def js_or_def truthy_def Object_values_def trim_Nil tr lo
        part_participantMap_def Map_has_def Map_get_def)
  have h3: "list_ex (\<lambda>r. list_all (\<lambda>val. val = []) (Object_values r)) [?blank, ?good]"
    by (simp add: Object_values_def)
  have h4: "vol_processFile [] [] [?blank] = Some ?vv"
    by (simp add: vol_processFile_def vol_validate_def cell_def opt_trim_def truthy_def)
  note t = C7_blank_rows[where row = ?blank and pm = "[]" and ps = "[]" and mids = "[]"
      and vm = "[]" and vids = "[]" and rows = "[?blank, ?good]" and pv = ?pv]
  note u = C7_blank_rows[where ps = "[]" and vols = "[]" and rows = "[?blank]" and vv = ?vv]
  from t[THEN conjunct1, THEN mp, OF h1]
  have c1: "part_validate [] ?blank = None"
    and c2: "status (club_validate [] [] ?blank) = Club_Invalid_Data"
    and c3: "status (vol_validate [] [] ?blank) = Vol_Invalid_Data"
    by blast+
  note c4 = t[THEN conjunct2, THEN conjunct1, THEN mp, OF h2]
  note c5 = t[THEN conjunct2, THEN conjunct2, THEN conjunct1, THEN mp, OF conjI[OF h2 h3]]
  note c6 = u[THEN conjunct2, THEN conjunct2, THEN conjunct2, THEN conjunct2, THEN mp, OF h4]
  show ?thesis
    by (intro conjI; (rule h1 h2 h3 h4 c1 c2 c3 c4 c5 c6))
qed

lemma truthy_opt_trim: "truthy (opt_trim v) = (\<exists>s. v = Some s \<and> trim s \<noteq> [])"
  by (cases v) (simp_all add: truthy_def opt_trim_def)

text \<open>
  Claim C8 as stated fails in the club-member import, which tests Name and Contact
  without trimming them: a Name of one space is empty after trimming, and the row is
  classified New Participant. It also fails in the participant import on a row whose
  cells are all empty: the row is dropped, not classified.
\<close>

theorem C8_club_whitespace_name_is_new:
  "trim '' '' = []
   \<and> status (club_validate [] [] [(''Name'', '' ''), (''Contact'', ''024'')])
       = Club_New_Participant
   \<and> part_validate [] [(''NAMES'', []), (''CONTACT'', [])] = None"
  by (simp add: trim_def is_whitespace_def club_validate_def cell_def truthy_def
      part_validate_def part_name_def part_contact_def opt_trim_def js_or_def Object_values_def)

text \<open>
  Claim C8, amended. A value is falsy after \<open>?.trim()\<close> exactly when it is missing or
  empty after trimming. The participant import classifies a row Invalid Data exactly when
  its name (NAMES, else Name) or its contact (CONTACT, else Contact) is missing or empty
  after trimming and its cells are not all empty. The volunteer import classifies a row
  Invalid Data exactly when its Name or Contact is missing or empty after trimming, or
  its Role is missing or, once trimmed, not one of the recognized roles. The club-member
  import does not trim: it classifies a row Invalid Data exactly when its Name or
  Contact is missing or the empty string.
\<close>

theorem C8_required_fields:
  "truthy (opt_trim v) = (\<exists>s. v = Some s \<and> trim s \<noteq> [])
   \<and> (map_option status (part_validate pm row) = Some Part_Invalid_Data)
       = ((\<not> truthy (opt_trim (cell row ''NAMES'')) \<and> \<not> truthy (opt_trim (cell row ''Name''))
            \<or> \<not> truthy (opt_trim (cell row ''CONTACT''))
              \<and> \<not> truthy (opt_trim (cell row ''Contact'')))
          \<and> \<not> list_all (\<lambda>val. val = []) (Object_values row))
   \<and> (status (vol_validate vm vids row) = Vol_Invalid_Data)
       = (\<not> truthy (opt_trim (cell row ''Name'')) \<or> \<not> truthy (opt_trim (cell row ''Contact''))
          \<or> \<not> (\<exists>r. cell row ''Role'' = Some r \<and> trim r \<in> set VOLUNTEER_ROLES_LIST))
   \<and> (status (club_validate ps mids row) = Club_Invalid_Data)
       = (\<not> truthy (cell row ''Name'') \<or> \<not> truthy (cell row ''Contact''))"
proof (intro conjI)
  show "truthy (opt_trim v) = (\<exists>s. v = Some s \<and> trim s \<noteq> [])"
    by (rule truthy_opt_trim)
next
  have n: "truthy (part_name row)
           = (truthy (opt_trim (cell row ''NAMES'')) \<or> truthy (opt_trim (cell row ''Name'')))"
    and c: "truthy (part_contact row)
           = (truthy (opt_trim (cell row ''CONTACT'')) \<or> truthy (opt_trim (cell row ''Contact'')))"
    by (auto simp: part_name_def part_contact_def js_or_def)
  show "(map_option status (part_validate pm row) = Some Part_Invalid_Data)
       = ((\<not> truthy (opt_trim (cell row ''NAMES'')) \<and> \<not> truthy (opt_trim (cell row ''Name''))
            \<or> \<not> truthy (opt_trim (cell row ''CONTACT''))
              \<and> \<not> truthy (opt_trim (cell row ''Contact'')))
          \<and> \<not> list_all (\<lambda>val. val = []) (Object_values row))"
  proof (cases "list_all (\<lambda>val. val = []) (Object_values row)")
    case True
    then show ?thesis by (simp add: part_validate_blank)
  next
    case False
    then show ?thesis
      by (auto simp: part_validate_def Let_def n c)
  qed
next
  show "(status (vol_validate vm vids row) = Vol_Invalid_Data)
       = (\<not> truthy (opt_trim (cell row ''Name'')) \<or> \<not> truthy (opt_trim (cell row ''Contact''))
          \<or> \<not> (\<exists>r. cell row ''Role'' = Some r \<and> trim r \<in> set VOLUNTEER_ROLES_LIST))"
  proof (cases "truthy (opt_trim (cell row ''Name'')) \<and> truthy (opt_trim (cell row ''Contact''))
                \<and> truthy (opt_trim (cell row ''Role''))")
    case False
    have "\<not> truthy (opt_trim (cell row ''Role''))
          \<Longrightarrow> \<not> (\<exists>r. cell row ''Role'' = Some r \<and> trim r \<in> set VOLUNTEER_ROLES_LIST)"
      by (auto simp: truthy_opt_trim VOLUNTEER_ROLES_LIST_def)
    with False show ?thesis by (auto simp: vol_validate_def Let_def)
  next
    case True
    then obtain r where r: "cell row ''Role'' = Some r"
      by (auto simp: truthy_opt_trim)
    with True show ?thesis
      by (auto simp: vol_validate_def Let_def opt_trim_def split: option.splits)
  qed
next
  show "(status (club_validate ps mids row) = Club_Invalid_Data)
       = (\<not> truthy (cell row ''Name'') \<or> \<not> truthy (cell row ''Contact''))"
    by (auto simp: club_validate_def split: option.splits)
qed

theorem C8_required_fields_witness:
  "(\<not> truthy (opt_trim (cell [(''NAMES'', [CHR 0xA0]), (''CONTACT'', ''024'')] ''NAMES''))
      \<and> \<not> truthy (opt_trim (cell [(''NAMES'', [CHR 0xA0]), (''CONTACT'', ''024'')] ''Name'')))
   \<and> \<not> list_all (\<lambda>val. val = []) (Object_values [(''NAMES'', [CHR 0xA0]), (''CONTACT'', ''024'')])
   \<and> map_option status (part_validate [] [(''NAMES'', [CHR 0xA0]), (''CONTACT'', ''024'')])
       = Some Part_Invalid_Data
   \<and> \<not> (\<exists>r. cell [(''Name'', ''Ama''), (''Contact'', ''024''), (''Role'', ''mentor'')] ''Role'' = Some r
             \<and> trim r \<in> set VOLUNTEER_ROLES_LIST)
   \<and> status (vol_validate [] [] [(''Name'', ''Ama''), (''Contact'', ''024''), (''Role'', ''mentor'')])
       = Vol_Invalid_Data
   \<and> \<not> truthy (cell [(''Name'', []), (''Contact'', ''024'')] ''Name'')
   \<and> status (club_validate [] [] [(''Name'', []), (''Contact'', ''024'')]) = Club_Invalid_Data
   \<and> truthy (cell [(''Name'', '' ''), (''Contact'', ''024'')] ''Name'')
   \<and> truthy (cell [(''Name'', '' ''), (''Contact'', ''024'')] ''Contact'')
   \<and> status (club_validate [] [] [(''Name'', '' ''), (''Contact'', ''024'')]) \<noteq> Club_Invalid_Data"
proof -
  let ?prow = "[(''NAMES'', [CHR 0xA0]), (''CONTACT'', ''024'')]"
  let ?vrow = "[(''Name'', ''Ama''), (''Contact'', ''024''), (''Role'', ''mentor'')]"
  let ?crow = "[(''Name'', []), (''Contact'', ''024'')]"
  let ?wrow = "[(''Name'', '' ''), (''Contact'', ''024'')]"
  have sp: "trim [CHR 0xA0] = []" and me: "trim ''mentor'' = ''mentor''"
    by code_simp+
  have a: "\<not> truthy (opt_trim (cell ?prow ''NAMES'')) \<and> \<not> truthy (opt_trim (cell ?prow ''Name''))"
    by (simp add: cell_def opt_trim_def truthy_def sp)
  have b: "\<not> list_all (\<lambda>val. val = []) (Object_values ?prow)"
    by (simp add: Object_values_def)
  have c: "\<not> (\<exists>r. cell ?vrow ''Role'' = Some r \<and> trim r \<in> set VOLUNTEER_ROLES_LIST)"
    by (simp add: cell_def me VOLUNTEER_ROLES_LIST_def)
  have d: "\<not> truthy (cell ?crow ''Name'')"
    by (simp add: cell_def truthy_def)
  have e1: "truthy (cell ?wrow ''Name'')" and e2: "truthy (cell ?wrow ''Contact'')"
    by (simp_all add: cell_def truthy_def)
  note p = C8_required_fields[where row = ?prow and pm = "[]", THEN conjunct2, THEN conjunct1,
      THEN iffD2, OF conjI[OF disjI1[OF a] b]]
  note v = C8_required_fields[where row = ?vrow and vm = "[]" and vids = "[]",
      THEN conjunct2, THEN conjunct2, THEN conjunct1, THEN iffD2, OF disjI2[OF disjI2[OF c]]]
  note k = C8_required_fields[where row = ?crow and ps = "[]" and mids = "[]",
      THEN conjunct2, THEN conjunct2, THEN conjunct2, THEN iffD2, OF disjI1[OF d]]
  have w: "status (club_validate [] [] ?wrow) \<noteq> Club_Invalid_Data"
    using C8_required_fields[where row = ?wrow and ps = "[]" and mids = "[]",
      THEN conjunct2, THEN conjunct2, THEN conjunct2] e1 e2
    by simp
  show ?thesis
    by (intro conjI; (rule a[THEN conjunct1] a[THEN conjunct2] b c d e1 e2 p v k w))
qed

section \<open>Preview: how a row is matched with a participant\<close>

lemma Map_has_iff: "Map_has (map (\<lambda>p. (f p, p)) ps) k = (k \<in> f ` set ps)"
  using Map_get_None_iff[of f ps k] by (simp add: Map_has_def)

lemma find_None_list_ex: "(find P xs = None) = (\<not> list_ex P xs)"
  by (auto simp: find_None_iff list_ex_iff)

lemma example_latin1:
  "toLowerCase [CHR 0xC9, CHR ''r'', CHR ''I'', CHR 0xD7, CHR 0xDE] = [CHR 0xE9, CHR ''r'', CHR ''i'', CHR 0xD7, CHR 0xFE]"
  "trim [CHR 0xA0, CHR ''a'', CHR '' '', CHR 0xA0] = ''a''"
  "trim [CHR 0xA0] = []"
  by code_simp+

lemma example_lower:
  "toLowerCase ''jane doe'' = ''jane doe''" "toLowerCase ''Jane Doe'' = ''jane doe''"
  "toLowerCase ''Jane'' = ''jane''" "toLowerCase ''ABC'' = ''abc''" "toLowerCase ''abc'' = ''abc''"
  "toLowerCase ''X'' = ''x''"
  by code_simp+

lemma example_trim:
  "trim ''jane doe'' = ''jane doe''" "trim ''Jane Doe'' = ''Jane Doe''" "trim ''X'' = ''X''"
  "trim ''Jane'' = ''Jane''" "trim ''ABC'' = ''ABC''" "trim ''abc'' = ''abc''"
  "trim ''Mentor'' = ''Mentor''" "trim ''jane doe '' = ''jane doe''"
  by (simp_all add: trim_def is_whitespace_def)

text \<open>
  Claim C1 as stated fails. The club-member import compares names and contacts as they
  are: a row and a participant with the same composite key, differing in case, do not
  match. The volunteer import lower-cases the contact as well: a row and a participant
  whose composite keys differ in the case of the contact do match.
\<close>

theorem C1_importers_differ:
  "part_key ''jane doe'' ''X'' = part_key ''Jane Doe'' ''X''
   \<and> status (club_validate [example_participant ''p1'' ''Jane Doe'' ''X'' ''UG''] []
               [(''Name'', ''jane doe''), (''Contact'', ''X'')]) = Club_New_Participant
   \<and> part_key ''Jane'' ''ABC'' \<noteq> part_key ''Jane'' ''abc''
   \<and> status (vol_validate (vol_participantMap [example_participant ''p1'' ''Jane'' ''abc'' ''UG''])
               [] [(''Name'', ''Jane''), (''Contact'', ''ABC''), (''Role'', ''Mentor'')])
       = Vol_Existing_Participant"
  by (simp add: part_key_def example_lower example_trim club_validate_def cell_def truthy_def
      example_participant_def vol_validate_def vol_participantMap_def vol_key_def Map_get_def
      opt_trim_def VOLUNTEER_ROLES_LIST_def)

text \<open>
  Claim C1, amended. The participant import matches a row with a participant by the key
  lowercase(trim(name)) + "_" + trim(contact), computed alike for the row and for the
  participant: a row with a name and a contact is Participant Already Exists when some
  participant has the row's key and New Participant otherwise. The volunteer import
  lower-cases the contact as well: its key is lowercase(trim(name)) + "_" +
  lowercase(trim(contact)), and over a snapshot whose names and contacts carry no
  surrounding white space a row with a name, a contact and a recognized role is New
  Participant exactly when no participant has its key. The club-member import uses no
  key: a row with a name and a contact is matched with the first participant whose name
  and contact are exactly the row's Name and Contact, as they stand, and is Already a
  Member or Existing Participant by that participant's membership; it is New Participant
  exactly when there is no such participant.
\<close>

theorem C1_matching_rules:
  "(part_name row = Some (trim rn) \<and> part_contact row = Some (trim rc)
      \<and> trim rn \<noteq> [] \<and> trim rc \<noteq> [] \<longrightarrow>
      map_option status (part_validate (part_participantMap ps) row)
        = Some (if toLowerCase (trim rn) @ ''_'' @ trim rc
                     \<in> (\<lambda>p. toLowerCase (trim (name p)) @ ''_'' @ trim (contact p)) ` set ps
                then Participant_Already_Exists else Part_New_Participant))
   \<and> (cell row ''Name'' = Some rn \<and> cell row ''Contact'' = Some rc \<and> cell row ''Role'' = Some rr
        \<and> trim rn \<noteq> [] \<and> trim rc \<noteq> [] \<and> trim rr \<in> set VOLUNTEER_ROLES_LIST
        \<and> list_all (\<lambda>p. trim (name p) = name p \<and> trim (contact p) = contact p) ps \<longrightarrow>
      (status (vol_validate (vol_participantMap ps) vids row) = Vol_New_Participant)
        = (toLowerCase (trim rn) @ ''_'' @ toLowerCase (trim rc)
             \<notin> (\<lambda>p. toLowerCase (trim (name p)) @ ''_'' @ toLowerCase (trim (contact p)))
                  ` set ps))
   \<and> (cell row ''Name'' = Some rn \<and> cell row ''Contact'' = Some rc \<and> rn \<noteq> [] \<and> rc \<noteq> [] \<longrightarrow>
      status (club_validate ps mids row)
        = (case find (\<lambda>p. name p = rn \<and> contact p = rc) ps of
             None \<Rightarrow> Club_New_Participant
           | Some p \<Rightarrow> if pid p \<in> set mids then Already_a_Member
                       else Club_Existing_Participant)
      \<and> (status (club_validate ps mids row) = Club_New_Participant)
          = (\<not> list_ex (\<lambda>p. name p = rn \<and> contact p = rc) ps))"
proof (intro conjI impI)
  assume "part_name row = Some (trim rn) \<and> part_contact row = Some (trim rc)
      \<and> trim rn \<noteq> [] \<and> trim rc \<noteq> []"
  then show "map_option status (part_validate (part_participantMap ps) row)
        = Some (if toLowerCase (trim rn) @ ''_'' @ trim rc
                     \<in> (\<lambda>p. toLowerCase (trim (name p)) @ ''_'' @ trim (contact p)) ` set ps
                then Participant_Already_Exists else Part_New_Participant)"
    by (simp add: part_validate_def truthy_def part_participantMap_def part_key_def Map_has_iff)
next
  assume h: "cell row ''Name'' = Some rn \<and> cell row ''Contact'' = Some rc \<and> cell row ''Role'' = Some rr
        \<and> trim rn \<noteq> [] \<and> trim rc \<noteq> [] \<and> trim rr \<in> set VOLUNTEER_ROLES_LIST
        \<and> list_all (\<lambda>p. trim (name p) = name p \<and> trim (contact p) = contact p) ps"
  then have im: "(\<lambda>p. toLowerCase (trim (name p)) @ ''_'' @ toLowerCase (trim (contact p))) ` set ps
                 = (\<lambda>p. vol_key (name p) (contact p)) ` set ps"
    by (intro image_cong) (auto simp: list_all_iff vol_key_def)
  have n: "(Map_get (vol_participantMap ps) (vol_key (trim rn) (trim rc)) = None)
           = (toLowerCase (trim rn) @ ''_'' @ toLowerCase (trim rc)
               \<notin> (\<lambda>p. toLowerCase (trim (name p)) @ ''_'' @ toLowerCase (trim (contact p)))
                    ` set ps)"
    unfolding vol_participantMap_def Map_get_None_iff im by (simp add: vol_key_def)
  show "(status (vol_validate (vol_participantMap ps) vids row) = Vol_New_Participant)
        = (toLowerCase (trim rn) @ ''_'' @ toLowerCase (trim rc)
             \<notin> (\<lambda>p. toLowerCase (trim (name p)) @ ''_'' @ toLowerCase (trim (contact p)))
                  ` set ps)"
  proof -
    from h have r: "trim rr \<noteq> []"
      by (auto simp: VOLUNTEER_ROLES_LIST_def)
    show ?thesis
      unfolding n[symmetric] using h r
      by (cases "Map_get (vol_participantMap ps) (vol_key (trim rn) (trim rc))")
         (simp_all add: vol_validate_def opt_trim_def truthy_def Let_def)
  qed
next
  assume h: "cell row ''Name'' = Some rn \<and> cell row ''Contact'' = Some rc \<and> rn \<noteq> [] \<and> rc \<noteq> []"
  have eq: "(\<lambda>p. Some (name p) = cell row ''Name'' \<and> Some (contact p) = cell row ''Contact'')
            = (\<lambda>p. name p = rn \<and> contact p = rc)"
    using h by auto
  from h show c: "status (club_validate ps mids row)
        = (case find (\<lambda>p. name p = rn \<and> contact p = rc) ps of
             None \<Rightarrow> Club_New_Participant
           | Some p \<Rightarrow> if pid p \<in> set mids then Already_a_Member
                       else Club_Existing_Participant)"
    by (simp add: club_validate_def truthy_def eq split: option.splits)
  show "(status (club_validate ps mids row) = Club_New_Participant)
          = (\<not> list_ex (\<lambda>p. name p = rn \<and> contact p = rc) ps)"
    unfolding c find_None_list_ex[symmetric]
    by (simp split: option.splits)
qed

theorem C1_matching_rules_witness:
  "part_name [(''Name'', ''jane doe ''), (''Contact'', ''X'')] = Some (trim ''jane doe '')
   \<and> part_contact [(''Name'', ''jane doe ''), (''Contact'', ''X'')] = Some (trim ''X'')
   \<and> trim ''jane doe '' \<noteq> [] \<and> trim ''X'' \<noteq> []
   \<and> map_option status
         (part_validate (part_participantMap [example_participant ''p1'' ''Jane Doe'' ''X'' ''UG''])
            [(''Name'', ''jane doe ''), (''Contact'', ''X'')])
       = Some Participant_Already_Exists
   \<and> cell [(''Name'', ''Jane''), (''Contact'', ''ABC''), (''Role'', ''Mentor'')] ''Name''
       = Some ''Jane''
   \<and> cell [(''Name'', ''Jane''), (''Contact'', ''ABC''), (''Role'', ''Mentor'')] ''Contact''
       = Some ''ABC''
   \<and> cell [(''Name'', ''Jane''), (''Contact'', ''ABC''), (''Role'', ''Mentor'')] ''Role''
       = Some ''Mentor''
   \<and> trim ''Jane'' \<noteq> [] \<and> trim ''ABC'' \<noteq> [] \<and> trim ''Mentor'' \<in> set VOLUNTEER_ROLES_LIST
   \<and> list_all (\<lambda>p. trim (name p) = name p \<and> trim (contact p) = contact p)
         [example_participant ''p1'' ''Jane'' ''abc'' ''UG'']
   \<and> status (vol_validate (vol_participantMap [example_participant ''p1'' ''Jane'' ''abc'' ''UG''])
               [] [(''Name'', ''Jane''), (''Contact'', ''ABC''), (''Role'', ''Mentor'')])
       \<noteq> Vol_New_Participant
   \<and> cell [(''Name'', ''Jane Doe''), (''Contact'', ''X'')] ''Name'' = Some ''Jane Doe''
   \<and> cell [(''Name'', ''Jane Doe''), (''Contact'', ''X'')] ''Contact'' = Some ''X''
   \<and> ''Jane Doe'' \<noteq> [] \<and> ''X'' \<noteq> []
   \<and> status (club_validate [example_participant ''p1'' ''Jane Doe'' ''X'' ''UG''] []
               [(''Name'', ''Jane Doe''), (''Contact'', ''X'')]) = Club_Existing_Participant
   \<and> status (club_validate [example_participant ''p1'' ''Jane Doe'' ''X'' ''UG''] [''p1'']
               [(''Name'', ''Jane Doe''), (''Contact'', ''X'')]) = Already_a_Member
   \<and> cell [(''Name'', ''Jane Doe ''), (''Contact'', ''X'')] ''Name'' = Some ''Jane Doe ''
   \<and> cell [(''Name'', ''Jane Doe ''), (''Contact'', ''X'')] ''Contact'' = Some ''X''
   \<and> ''Jane Doe '' \<noteq> []
   \<and> \<not> list_ex (\<lambda>p. name p = ''Jane Doe '' \<and> contact p = ''X'')
           [example_participant ''p1'' ''Jane Doe'' ''X'' ''UG'']
   \<and> status (club_validate [example_participant ''p1'' ''Jane Doe'' ''X'' ''UG''] []
               [(''Name'', ''Jane Doe ''), (''Contact'', ''X'')]) = Club_New_Participant"
proof -
  let ?prow = "[(''Name'', ''jane doe ''), (''Contact'', ''X'')]"
  let ?vrow = "[(''Name'', ''Jane''), (''Contact'', ''ABC''), (''Role'', ''Mentor'')]"
  let ?crow = "[(''Name'', ''Jane Doe''), (''Contact'', ''X'')]"
  let ?nrow = "[(''Name'', ''Jane Doe ''), (''Contact'', ''X'')]"
  let ?jd = "example_participant ''p1'' ''Jane Doe'' ''X'' ''UG''"
  let ?j = "example_participant ''p1'' ''Jane'' ''abc'' ''UG''"
  have p1: "part_name ?prow = Some (trim ''jane doe '')"
    and p2: "part_contact ?prow = Some (trim ''X'')"
    by (simp_all add: part_name_def part_contact_def cell_def opt_trim_def js_or_def truthy_def)
  have p3: "trim ''jane doe '' \<noteq> []" and p4: "trim ''X'' \<noteq> []"
    and v4: "trim ''Jane'' \<noteq> []" and v5: "trim ''ABC'' \<noteq> []"
    and v6: "trim ''Mentor'' \<in> set VOLUNTEER_ROLES_LIST"
    by (simp_all add: example_trim VOLUNTEER_ROLES_LIST_def)
  have v7: "list_all (\<lambda>p. trim (name p) = name p \<and> trim (contact p) = contact p) [?j]"
    by (simp add: example_participant_def example_trim)
  have v1: "cell ?vrow ''Name'' = Some ''Jane''" and v2: "cell ?vrow ''Contact'' = Some ''ABC''"
    and v3: "cell ?vrow ''Role'' = Some ''Mentor''"
    and k1: "cell ?crow ''Name'' = Some ''Jane Doe''" and k2: "cell ?crow ''Contact'' = Some ''X''"
    by (simp_all add: cell_def)
  have k3: "''Jane Doe'' \<noteq> []" and k4: "''X'' \<noteq> []"
    by simp_all
  have f: "find (\<lambda>p. name p = ''Jane Doe'' \<and> contact p = ''X'') [?jd] = Some ?jd"
    by (simp add: example_participant_def)
  have i: "pid ?jd = ''p1''"
    by (simp add: example_participant_def)
  have n1: "cell ?nrow ''Name'' = Some ''Jane Doe ''" and n2: "cell ?nrow ''Contact'' = Some ''X''"
    by (simp_all add: cell_def)
  have n3: "''Jane Doe '' \<noteq> []"
    by simp
  have n5: "\<not> list_ex (\<lambda>p. name p = ''Jane Doe '' \<and> contact p = ''X'') [?jd]"
    by (simp add: example_participant_def)
  have P: "map_option status (part_validate (part_participantMap [?jd]) ?prow)
           = Some Participant_Already_Exists"
    using C1_matching_rules[where row = ?prow and rn = "''jane doe ''" and rc = "''X''"
        and ps = "[?jd]", THEN conjunct1, THEN mp, OF conjI[OF p1 conjI[OF p2 conjI[OF p3 p4]]]]
    by (simp add: example_trim example_lower example_participant_def)
  have V: "status (vol_validate (vol_participantMap [?j]) [] ?vrow) \<noteq> Vol_New_Participant"
    using C1_matching_rules[where row = ?vrow and rn = "''Jane''" and rc = "''ABC''"
        and rr = "''Mentor''" and ps = "[?j]" and vids = "[]",
        THEN conjunct2, THEN conjunct1, THEN mp,
        OF conjI[OF v1 conjI[OF v2 conjI[OF v3 conjI[OF v4 conjI[OF v5 conjI[OF v6 v7]]]]]]]
    by (simp add: example_trim example_lower example_participant_def)
  have K: "status (club_validate [?jd] [] ?crow) = Club_Existing_Participant"
    using C1_matching_rules[where row = ?crow and rn = "''Jane Doe''" and rc = "''X''"
        and ps = "[?jd]" and mids = "[]", THEN conjunct2, THEN conjunct2, THEN mp,
        OF conjI[OF k1 conjI[OF k2 conjI[OF k3 k4]]], THEN conjunct1, unfolded f option.case]
    by simp
  have M: "status (club_validate [?jd] [''p1''] ?crow) = Already_a_Member"
    using C1_matching_rules[where row = ?crow and rn = "''Jane Doe''" and rc = "''X''"
        and ps = "[?jd]" and mids = "[''p1'']", THEN conjunct2, THEN conjunct2, THEN mp,
        OF conjI[OF k1 conjI[OF k2 conjI[OF k3 k4]]], THEN conjunct1, unfolded f option.case i]
    by simp
  have N: "status (club_validate [?jd] [] ?nrow) = Club_New_Participant"
    using C1_matching_rules[where row = ?nrow and rn = "''Jane Doe ''" and rc = "''X''"
        and ps = "[?jd]" and mids = "[]", THEN conjunct2, THEN conjunct2, THEN mp,
        OF conjI[OF n1 conjI[OF n2 conjI[OF n3 k4]]], THEN conjunct2] n5
    by simp
  show ?thesis
    by (intro conjI; (rule p1 p2 p3 p4 v1 v2 v3 v4 v5 v6 v7 k1 k2 k3 k4 n1 n2 n3 n5 P V K M N))
qed

text \<open>
  Claim C2 fails on the code: the club-member import does not look at institutions. A row
  with the name and contact of a participant of another institution than the club's is
  classified Existing Participant, so the import would attach that participant to the
  club. (The manual path, \<open>AddMemberModal\<close>, offers only participants of the club's
  institution as existing members, and creates every other member with the club's
  institution.)
\<close>

theorem C2_cross_institution_match_is_existing:
  "institution (example_participant ''p1'' ''Ama'' ''024'' ''KNUST'')
     \<noteq> club_institution (example_club ''c1'' ''UG'')
   \<and> cell example_row ''Name'' = Some (name (example_participant ''p1'' ''Ama'' ''024'' ''KNUST''))
   \<and> cell example_row ''Contact''
       = Some (contact (example_participant ''p1'' ''Ama'' ''024'' ''KNUST''))
   \<and> map status (club_processFile [example_participant ''p1'' ''Ama'' ''024'' ''KNUST''] []
                    (example_club ''c1'' ''UG'') [example_row])
       = [Club_Existing_Participant]"
  by (simp add: example_participant_def example_club_def example_row_def cell_def
      club_processFile_def club_validate_def truthy_def clubMemberIds_def)

section \<open>Re-import\<close>

text \<open>
  Claim C6 fails on the code. Participant import: the preview takes the name from
  \<open>NAMES?.trim() || Name?.trim()\<close>, the write takes it from \<open>NAMES || Name\<close>. For a row
  whose NAMES is two spaces and whose Name is Jane, the preview (against an empty
  snapshot) says New Participant, the participant written has the name of two spaces, and
  once that write is in the snapshot the same row is classified New Participant again.
  Volunteer import: the preview trims the row's Name, the write and the key of a
  participant do not. For a row whose Name is Ama followed by a space, the run creates a
  participant and a volunteer, and once both are in the snapshot the same row is
  classified New Participant again.
\<close>

theorem C6_reimport_classifies_new_again:
  "part_processFile [] [[(''NAMES'', ''  ''), (''Name'', ''Jane''), (''CONTACT'', ''1'')]]
     = Some [\<lparr>data = [(''NAMES'', ''  ''), (''Name'', ''Jane''), (''CONTACT'', ''1'')],
               status = Part_New_Participant, message = ''Will be created''\<rparr>]
   \<and> part_handleImport succeeding
         [\<lparr>data = [(''NAMES'', ''  ''), (''Name'', ''Jane''), (''CONTACT'', ''1'')],
           status = Part_New_Participant, message = ''Will be created''\<rparr>]
         \<lparr>world = 0, calls = []\<rparr>
       = (Import_successful 1,
          \<lparr>world = 1,
           calls = [Call_addMultipleParticipants
                      [part_fields [(''NAMES'', ''  ''), (''Name'', ''Jane''), (''CONTACT'', ''1'')]]
                      (Resolved 1)]\<rparr>)
   \<and> np_name (part_fields [(''NAMES'', ''  ''), (''Name'', ''Jane''), (''CONTACT'', ''1'')])
       = Some ''  ''
   \<and> map_option (map status)
         (part_processFile
            [absorbed ''p1'' 0 ''YIN-1''
               (part_fields [(''NAMES'', ''  ''), (''Name'', ''Jane''), (''CONTACT'', ''1'')])]
            [[(''NAMES'', ''  ''), (''Name'', ''Jane''), (''CONTACT'', ''1'')]])
       = Some [Part_New_Participant]
   \<and> vol_processFile [] [] [[(''Name'', ''Ama ''), (''Contact'', ''024''), (''Role'', ''Mentor'')]]
       = Some [\<lparr>data = [(''Name'', ''Ama ''), (''Contact'', ''024''), (''Role'', ''Mentor'')],
                 status = Vol_New_Participant,
                 message = ''Will be created and added as a volunteer.''\<rparr>]
   \<and> calls (vol_handleImport succeeding example_clock []
               [\<lparr>data = [(''Name'', ''Ama ''), (''Contact'', ''024''), (''Role'', ''Mentor'')],
                 status = Vol_New_Participant,
                 message = ''Will be created and added as a volunteer.''\<rparr>] 0)
       = [Call_addParticipant
            (vol_fields [(''Name'', ''Ama ''), (''Contact'', ''024''), (''Role'', ''Mentor'')]) None
            (Resolved (Some (absorbed ''p'' 0 []
               (vol_fields [(''Name'', ''Ama ''), (''Contact'', ''024''), (''Role'', ''Mentor'')])))),
          Call_addVolunteer
            \<lparr>nv_participantId = ''p'', nv_role = Some ''Mentor'', nv_status = Active,
             nv_startDate = 1730000000000\<rparr>
            (Resolved JUndefined)]
   \<and> name (absorbed ''p'' 0 []
         (vol_fields [(''Name'', ''Ama ''), (''Contact'', ''024''), (''Role'', ''Mentor'')]))
       = ''Ama ''
   \<and> map_option (map status)
         (vol_processFile
            [absorbed ''p'' 0 []
               (vol_fields [(''Name'', ''Ama ''), (''Contact'', ''024''), (''Role'', ''Mentor'')])]
            [\<lparr>vol_id = ''v1'', vol_participantId = ''p'', vol_role = Mentor, vol_status = Active,
              vol_startDate = 1730000000000\<rparr>]
            [[(''Name'', ''Ama ''), (''Contact'', ''024''), (''Role'', ''Mentor'')]])
       = Some [Vol_New_Participant]"
proof -
  have tr: "trim ''  '' = []" "trim ''Jane'' = ''Jane''" "trim ''1'' = ''1''"
    "trim ''Ama '' = ''Ama''" "trim ''024'' = ''024''" "trim ''Mentor'' = ''Mentor''"
    by (simp_all add: trim_def is_whitespace_def)
  have lo: "toLowerCase ''Jane'' = ''jane''" "toLowerCase ''Ama'' = ''ama''"
    "toLowerCase ''Ama '' = ''ama ''" "toLowerCase ''024'' = ''024''" "toLowerCase [] = []"
    by code_simp+
  show ?thesis
    by (simp add: part_processFile_def part_validate_def part_name_def part_contact_def cell_def
        opt_trim_def js_or_def truthy_def Object_values_def tr lo part_participantMap_def
        part_key_def Map_has_def Map_get_def participantsToCreate_def part_fields_def
        part_handleImport_def await_addMultipleParticipants_def
        absorbed_def or_default_def
        vol_processFile_def vol_validate_def vol_participantMap_def vol_key_def
        volunteerParticipantIds_def VOLUNTEER_ROLES_LIST_def
        vol_handleImport_def vol_start_def vol_row_def vol_try_def vol_try_startDate_def example_clock_def
        succeeding_def await_addParticipant_def await_addVolunteer_def vol_volunteer_def
        vol_fields_def)
qed

end
